theory Spec2Isabelle
  imports Complex_Main "HOL-Library.Multiset"
begin

section \<open>Python values, exceptions and indexing\<close>

text \<open>
  The model follows \<^verbatim>\<open>plotting.py\<close>. A Python exception is the left summand of a
  sum type; \<open>pybind\<close> sequences two statements and lets the first exception through.
  Python's float values are modelled by the real numbers they approximate: a coordinate
  plus a box length is the exact sum, and the duration handed to the writer is the exact
  quotient. Where a quotient is truncated to an int, in the sampler, its rounding to a
  double is modelled as well (section The Frame Sampler on doubles).
\<close>

datatype py_error = ZeroDivisionError | IndexError | FileNotFoundError

text \<open>Python's exception hierarchy: \<^verbatim>\<open>FileNotFoundError\<close> is a subclass of \<^verbatim>\<open>OSError\<close>,
  the class of generic I/O failures; the two others are not.\<close>

fun is_OSError :: "py_error \<Rightarrow> bool" where
  "is_OSError FileNotFoundError = True"
| "is_OSError ZeroDivisionError = False"
| "is_OSError IndexError = False"

definition pybind :: "py_error + 'a \<Rightarrow> ('a \<Rightarrow> py_error + 'b) \<Rightarrow> py_error + 'b" where
  "pybind m k = (case m of Inl e \<Rightarrow> Inl e | Inr x \<Rightarrow> k x)"

text \<open>\<^verbatim>\<open>a / b\<close> on two ints (true division).\<close>

definition truediv :: "int \<Rightarrow> int \<Rightarrow> py_error + real" where
  "truediv a b = (if b = 0 then Inl ZeroDivisionError else Inr (real_of_int a / real_of_int b))"

text \<open>\<^verbatim>\<open>int(x)\<close> on a float: truncation toward zero.\<close>

definition py_int :: "real \<Rightarrow> int" where
  "py_int x = (if 0 \<le> x then \<lfloor>x\<rfloor> else \<lceil>x\<rceil>)"

text \<open>\<^verbatim>\<open>range(n)\<close>: empty when \<open>n \<le> 0\<close>.\<close>

definition py_range :: "int \<Rightarrow> int list" where
  "py_range n = [0..n - 1]"

text \<open>A list comprehension \<^verbatim>\<open>[f(x) for x in xs]\<close> whose element expression may raise.\<close>

fun comprehension :: "('a \<Rightarrow> py_error + 'b) \<Rightarrow> 'a list \<Rightarrow> py_error + 'b list" where
  "comprehension f [] = Inr []"
| "comprehension f (x # xs) =
     pybind (f x) (\<lambda>y. pybind (comprehension f xs) (\<lambda>ys. Inr (y # ys)))"

text \<open>A \<^verbatim>\<open>for x in xs:\<close> loop whose body updates a state and may raise.\<close>

fun for_each :: "('a \<Rightarrow> 's \<Rightarrow> py_error + 's) \<Rightarrow> 'a list \<Rightarrow> 's \<Rightarrow> py_error + 's" where
  "for_each body [] s = Inr s"
| "for_each body (x # xs) s = pybind (body x s) (for_each body xs)"

text \<open>
  numpy arrays are nested lists of rows. \<^verbatim>\<open>a[i]\<close> with an int index counts from the end
  when the index is negative and raises \<^verbatim>\<open>IndexError\<close> out of range.
\<close>

type_synonym ndarray1 = "real list"
type_synonym ndarray2 = "real list list"
type_synonym ndarray3 = "real list list list"

definition getitem :: "'a list \<Rightarrow> int \<Rightarrow> py_error + 'a" where
  "getitem a i =
     (if 0 \<le> i \<and> i < int (length a) then Inr (a ! nat i)
      else if i < 0 \<and> 0 \<le> int (length a) + i then Inr (a ! nat (int (length a) + i))
      else Inl IndexError)"

definition getitem2 :: "'a list list \<Rightarrow> int \<Rightarrow> int \<Rightarrow> py_error + 'a" where
  "getitem2 a i k = pybind (getitem a i) (\<lambda>row. getitem row k)"

definition getitem3 :: "'a list list list \<Rightarrow> int \<Rightarrow> int \<Rightarrow> int \<Rightarrow> py_error + 'a" where
  "getitem3 a j i k = pybind (getitem a j) (\<lambda>plane. getitem2 plane i k)"

text \<open>\<^verbatim>\<open>pos.shape[0]\<close>.\<close>

definition shape0 :: "'a list \<Rightarrow> int" where
  "shape0 a = int (length a)"

section \<open>The Frame Sampler (lines 32 and 86)\<close>

text \<open>
  \<^verbatim>\<open>save_frame = [int(i*(num_tsteps-1)/(num_frames-1)) for i in range(num_frames-1)]
               + [int(num_tsteps)-1]\<close>
  The expression is written twice in the source, once in each pipeline.
\<close>

definition save_frame_2D :: "int \<Rightarrow> int \<Rightarrow> py_error + int list" where
  "save_frame_2D num_tsteps num_frames =
     pybind (comprehension
               (\<lambda>i. pybind (truediv (i * (num_tsteps - 1)) (num_frames - 1)) (\<lambda>q. Inr (py_int q)))
               (py_range (num_frames - 1)))
       (\<lambda>idx. Inr (idx @ [num_tsteps - 1]))"

definition save_frame_3D :: "int \<Rightarrow> int \<Rightarrow> py_error + int list" where
  "save_frame_3D num_tsteps num_frames =
     pybind (comprehension
               (\<lambda>i. pybind (truediv (i * (num_tsteps - 1)) (num_frames - 1)) (\<lambda>q. Inr (py_int q)))
               (py_range (num_frames - 1)))
       (\<lambda>idx. Inr (idx @ [num_tsteps - 1]))"

text \<open>The Sample Plan in the words of the specification: \<open>floor(i (T - 1) / (F - 1))\<close>
  for \<open>i\<close> from \<open>0\<close> to \<open>F - 2\<close>, then \<open>T - 1\<close>.\<close>

definition sample_plan_spec :: "int \<Rightarrow> int \<Rightarrow> int list" where
  "sample_plan_spec T F = map (\<lambda>i. (i * (T - 1)) div (F - 1)) [0..F - 2] @ [T - 1]"

section \<open>The Frame Sampler on doubles\<close>

text \<open>
  In CPython the quotient of two ints is the double nearest to the exact quotient, a tie
  going to the even mantissa, and the sampler truncates it to an int: there the rounding
  decides the index. \<open>round_double\<close> rounds a real to the 53 significant bits of a double;
  overflow and the subnormal range, which need ints of more than a thousand bits, are
  left out. \<open>save_frame_2D_double\<close> and \<open>save_frame_3D_double\<close> are the expression of
  lines 32 and 86 with the quotient rounded so. While \<open>(F - 2) (T - 1) < 2 ^ 53\<close> they
  return the list of \<open>save_frame_2D\<close> and \<open>save_frame_3D\<close> above (lemma
  \<open>sampler_double_agrees\<close> below), the definitions the pipelines are built on.
\<close>

definition round_half_even :: "real \<Rightarrow> int" where
  "round_half_even y =
     (if y - of_int \<lfloor>y\<rfloor> < 1 / 2 then \<lfloor>y\<rfloor>
      else if 1 / 2 < y - of_int \<lfloor>y\<rfloor> then \<lfloor>y\<rfloor> + 1
      else if even \<lfloor>y\<rfloor> then \<lfloor>y\<rfloor> else \<lfloor>y\<rfloor> + 1)"

definition round_double :: "real \<Rightarrow> real" where
  "round_double x =
     (if x = 0 then 0
      else real_of_int (round_half_even (x / 2 powr (of_int \<lfloor>log 2 \<bar>x\<bar>\<rfloor> - 52)))
           * 2 powr (of_int \<lfloor>log 2 \<bar>x\<bar>\<rfloor> - 52))"

text \<open>\<^verbatim>\<open>a / b\<close> on two ints, as a double.\<close>

definition truediv_double :: "int \<Rightarrow> int \<Rightarrow> py_error + real" where
  "truediv_double a b =
     (if b = 0 then Inl ZeroDivisionError
      else Inr (round_double (real_of_int a / real_of_int b)))"

definition save_frame_2D_double :: "int \<Rightarrow> int \<Rightarrow> py_error + int list" where
  "save_frame_2D_double num_tsteps num_frames =
     pybind (comprehension
               (\<lambda>i. pybind (truediv_double (i * (num_tsteps - 1)) (num_frames - 1))
                       (\<lambda>q. Inr (py_int q)))
               (py_range (num_frames - 1)))
       (\<lambda>idx. Inr (idx @ [num_tsteps - 1]))"

definition save_frame_3D_double :: "int \<Rightarrow> int \<Rightarrow> py_error + int list" where
  "save_frame_3D_double num_tsteps num_frames =
     pybind (comprehension
               (\<lambda>i. pybind (truediv_double (i * (num_tsteps - 1)) (num_frames - 1))
                       (\<lambda>q. Inr (py_int q)))
               (py_range (num_frames - 1)))
       (\<lambda>idx. Inr (idx @ [num_tsteps - 1]))"

section \<open>The canvas\<close>

text \<open>
  A matplotlib axes object is a record of what has been drawn and set on it. An artist is
  one \<^verbatim>\<open>ax.plot\<close> call: its coordinate lists, its format string and its \<^verbatim>\<open>color\<close>
  keyword. On 3D axes \<^verbatim>\<open>plot(x, y, fmt)\<close> without a third coordinate draws at \<open>z = 0\<close>.
  The title \<^verbatim>\<open>"dimensionless t={:0.3f}".format(time[t])\<close> is kept as the time it formats.
\<close>

datatype projection = Rectilinear | Projection3D

datatype artist =
    Plot2D "real list" "real list" string "string option"
  | Plot3D "real list" "real list" "real list" string "string option"

datatype axis = X_axis | Y_axis | Z_axis

record canvas =
  projection :: projection
  artists :: "artist list"
  xlim :: "(real \<times> real) option"
  ylim :: "(real \<times> real) option"
  zlim :: "(real \<times> real) option"
  xlabel :: string
  ylabel :: string
  zlabel :: string
  title :: "real option"
  tick_direction :: "(axis \<times> string) list"
  ticks_position :: "(axis \<times> string) list"

definition add_subplot :: "projection \<Rightarrow> canvas" where
  "add_subplot p = \<lparr>projection = p, artists = [], xlim = None, ylim = None, zlim = None,
     xlabel = [], ylabel = [], zlabel = [], title = None,
     tick_direction = [], ticks_position = []\<rparr>"

definition ax_plot :: "artist \<Rightarrow> canvas \<Rightarrow> canvas" where
  "ax_plot a ax = ax\<lparr>artists := artists ax @ [a]\<rparr>"

definition set_xlim :: "real \<Rightarrow> real \<Rightarrow> canvas \<Rightarrow> canvas" where
  "set_xlim lo hi ax = ax\<lparr>xlim := Some (lo, hi)\<rparr>"

definition set_ylim :: "real \<Rightarrow> real \<Rightarrow> canvas \<Rightarrow> canvas" where
  "set_ylim lo hi ax = ax\<lparr>ylim := Some (lo, hi)\<rparr>"

definition set_zlim :: "real \<Rightarrow> real \<Rightarrow> canvas \<Rightarrow> canvas" where
  "set_zlim lo hi ax = ax\<lparr>zlim := Some (lo, hi)\<rparr>"

definition set_xlabel :: "string \<Rightarrow> canvas \<Rightarrow> canvas" where
  "set_xlabel s ax = ax\<lparr>xlabel := s\<rparr>"

definition set_ylabel :: "string \<Rightarrow> canvas \<Rightarrow> canvas" where
  "set_ylabel s ax = ax\<lparr>ylabel := s\<rparr>"

definition set_zlabel :: "string \<Rightarrow> canvas \<Rightarrow> canvas" where
  "set_zlabel s ax = ax\<lparr>zlabel := s\<rparr>"

definition set_title :: "real \<Rightarrow> canvas \<Rightarrow> canvas" where
  "set_title t ax = ax\<lparr>title := Some t\<rparr>"

definition tick_params :: "axis \<Rightarrow> string \<Rightarrow> canvas \<Rightarrow> canvas" where
  "tick_params a d ax = ax\<lparr>tick_direction := tick_direction ax @ [(a, d)]\<rparr>"

definition set_ticks_position :: "axis \<Rightarrow> string \<Rightarrow> canvas \<Rightarrow> canvas" where
  "set_ticks_position a p ax = ax\<lparr>ticks_position := ticks_position ax @ [(a, p)]\<rparr>"

text \<open>\<^verbatim>\<open>plt.cla()\<close> clears the axes and keeps their kind.\<close>

definition cla :: "canvas \<Rightarrow> canvas" where
  "cla ax = add_subplot (projection ax)"

text \<open>The image positions on a canvas: the artists that are single points.\<close>

fun points_2D :: "artist list \<Rightarrow> (real \<times> real) list" where
  "points_2D [] = []"
| "points_2D (Plot2D [x] [y] fmt col # as) = (x, y) # points_2D as"
| "points_2D (a # as) = points_2D as"

fun points_3D :: "artist list \<Rightarrow> (real \<times> real \<times> real) list" where
  "points_3D [] = []"
| "points_3D (Plot3D [x] [y] [z] fmt col # as) = (x, y, z) # points_3D as"
| "points_3D (a # as) = points_3D as"

text \<open>The pair lines on a canvas: the artists drawn with the format \<^verbatim>\<open>"b--"\<close>.\<close>

fun is_pair_line :: "artist \<Rightarrow> bool" where
  "is_pair_line (Plot2D xs ys fmt col) = (fmt = ''b--'')"
| "is_pair_line (Plot3D xs ys zs fmt col) = (fmt = ''b--'')"

definition pair_lines :: "canvas \<Rightarrow> artist list" where
  "pair_lines ax = filter is_pair_line (artists ax)"

section \<open>The 2D renderer \<^verbatim>\<open>plot_pos_2D\<close> (lines 117 to 177)\<close>

text \<open>\<^verbatim>\<open>ax.plot(pos[i,0]+dx, pos[i,1]+dy, fmt, color=col)\<close>\<close>

definition plot_point_2D ::
  "ndarray2 \<Rightarrow> int \<Rightarrow> string \<Rightarrow> string option \<Rightarrow> real \<times> real \<Rightarrow> canvas \<Rightarrow> py_error + canvas" where
  "plot_point_2D pos i fmt col d ax =
     pybind (getitem2 pos i 0) (\<lambda>x.
     pybind (getitem2 pos i 1) (\<lambda>y.
     Inr (ax_plot (Plot2D [x + fst d] [y + snd d] fmt col) ax)))"

text \<open>The eight calls of lines 146 to 153, in the order of the source.\<close>

definition neighbour_offsets_2D :: "real \<Rightarrow> (real \<times> real) list" where
  "neighbour_offsets_2D L =
     [(L, 0), (0, L), (L, L), (- L, 0), (0, - L), (- L, - L), (- L, L), (L, - L)]"

text \<open>The body of the loop over the particles, lines 142 to 153.\<close>

definition particle_2D :: "ndarray2 \<Rightarrow> real \<Rightarrow> bool \<Rightarrow> int \<Rightarrow> canvas \<Rightarrow> py_error + canvas" where
  "particle_2D pos L central_box i ax =
     pybind (if central_box then plot_point_2D pos i ''.'' (Some ''black'') (0, 0) ax
             else plot_point_2D pos i ''r.'' None (0, 0) ax)
       (for_each (plot_point_2D pos i ''r.'' None) (neighbour_offsets_2D L))"

text \<open>The body of the inner loop over the pairs, lines 162 and 163.\<close>

definition pair_line_2D :: "ndarray2 \<Rightarrow> ndarray3 \<Rightarrow> int \<Rightarrow> int \<Rightarrow> canvas \<Rightarrow> py_error + canvas" where
  "pair_line_2D pos rel_pos i j ax =
     (if i = j then Inr ax
      else pybind (getitem2 pos i 0) (\<lambda>x.
           pybind (getitem3 rel_pos j i 0) (\<lambda>rx.
           pybind (getitem2 pos i 1) (\<lambda>y.
           pybind (getitem3 rel_pos j i 1) (\<lambda>ry.
           Inr (ax_plot (Plot2D [x, x + rx] [y, y + ry] ''b--'' None) ax))))))"

text \<open>
  \<^verbatim>\<open>sim.atomic_distances\<close> belongs to the trajectory provider and is a parameter: it
  returns the pair \<^verbatim>\<open>(rel_pos, rel_dist)\<close>.
\<close>

definition plot_pos_2D ::
  "(ndarray2 \<Rightarrow> real \<Rightarrow> ndarray3 \<times> ndarray2) \<Rightarrow> canvas \<Rightarrow> ndarray2 \<Rightarrow> real \<Rightarrow> bool \<Rightarrow> bool
     \<Rightarrow> py_error + canvas" where
  "plot_pos_2D atomic_distances ax pos L central_box relative_pos =
     pybind (for_each (particle_2D pos L central_box) (py_range (shape0 pos)) ax) (\<lambda>ax1.
     pybind (Inr (if central_box
                  then ax_plot (Plot2D [0, 0, L, L, 0] [0, L, L, 0, 0] ''g-'' None) ax1
                  else ax1)) (\<lambda>ax2.
     pybind (if relative_pos
             then for_each (\<lambda>i. for_each (pair_line_2D pos (fst (atomic_distances pos L)) i)
                                   (py_range (shape0 pos)))
                    (py_range (shape0 pos)) ax2
             else Inr ax2) (\<lambda>ax3.
     Inr (set_ticks_position X_axis ''both''
         (set_ticks_position Y_axis ''both''
         (tick_params X_axis ''in''
         (tick_params Y_axis ''in''
         (set_ylabel ''dimensionless y coordinate''
         (set_xlabel ''dimensionless x coordinate''
         (set_ylim (- L / 2) (3 * L / 2)
         (set_xlim (- L / 2) (3 * L / 2) ax3)))))))))))"

section \<open>The 3D renderer \<^verbatim>\<open>plot_pos_3D\<close> (lines 179 to 278)\<close>

text \<open>\<^verbatim>\<open>ax.plot(pos[i,0]+dx, pos[i,1]+dy, pos[i,2]+dz, fmt)\<close>\<close>

definition plot_point_3D ::
  "ndarray2 \<Rightarrow> int \<Rightarrow> string \<Rightarrow> string option \<Rightarrow> real \<times> real \<times> real \<Rightarrow> canvas
     \<Rightarrow> py_error + canvas" where
  "plot_point_3D pos i fmt col d ax =
     pybind (getitem2 pos i 0) (\<lambda>x.
     pybind (getitem2 pos i 1) (\<lambda>y.
     pybind (getitem2 pos i 2) (\<lambda>z.
     Inr (ax_plot (Plot3D [x + fst d] [y + fst (snd d)] [z + snd (snd d)] fmt col) ax))))"

text \<open>Line 205, \<^verbatim>\<open>ax.plot(pos[i,0], pos[i,1], ".", color="black")\<close>: no third coordinate.\<close>

definition plot_point_flat :: "ndarray2 \<Rightarrow> int \<Rightarrow> canvas \<Rightarrow> py_error + canvas" where
  "plot_point_flat pos i ax =
     pybind (getitem2 pos i 0) (\<lambda>x.
     pybind (getitem2 pos i 1) (\<lambda>y.
     Inr (ax_plot (Plot3D [x] [y] [0] ''.'' (Some ''black'')) ax)))"

text \<open>The twenty-six calls of lines 209 to 242, in the order of the source.\<close>

definition neighbour_offsets_3D :: "real \<Rightarrow> (real \<times> real \<times> real) list" where
  "neighbour_offsets_3D L =
     [(L, 0, 0), (0, L, 0), (0, 0, L),
      (L, L, 0), (0, L, L), (L, 0, L),
      (L, L, L),
      (- L, 0, 0), (0, - L, 0), (0, 0, - L),
      (- L, - L, 0), (- L, 0, - L), (0, - L, - L),
      (- L, - L, - L),
      (- L, L, 0), (L, - L, 0), (- L, 0, L), (L, 0, - L), (0, L, - L), (0, - L, L),
      (L, - L, - L), (- L, L, - L), (- L, - L, L),
      (- L, L, L), (L, - L, L), (L, L, - L)]"

text \<open>The body of the loop over the particles, lines 204 to 246.\<close>

definition particle_3D ::
  "ndarray2 \<Rightarrow> real \<Rightarrow> bool \<Rightarrow> bool \<Rightarrow> int \<Rightarrow> canvas \<Rightarrow> py_error + canvas" where
  "particle_3D pos L central_box outer_boxes i ax =
     pybind (if central_box then plot_point_flat pos i ax
             else plot_point_3D pos i ''r.'' None (0, 0, 0) ax) (\<lambda>ax1.
     if outer_boxes
     then pybind (for_each (plot_point_3D pos i ''r.'' None) (neighbour_offsets_3D L) ax1) (\<lambda>ax2.
          Inr (set_zlim (- L) (2 * L) (set_ylim (- L) (2 * L) (set_xlim (- L) (2 * L) ax2))))
     else Inr ax1)"

text \<open>The body of the inner loop over the pairs, lines 262 and 263.\<close>

definition pair_line_3D :: "ndarray2 \<Rightarrow> ndarray3 \<Rightarrow> int \<Rightarrow> int \<Rightarrow> canvas \<Rightarrow> py_error + canvas" where
  "pair_line_3D pos rel_pos i j ax =
     (if i = j then Inr ax
      else pybind (getitem2 pos i 0) (\<lambda>x.
           pybind (getitem3 rel_pos j i 0) (\<lambda>rx.
           pybind (getitem2 pos i 1) (\<lambda>y.
           pybind (getitem3 rel_pos j i 1) (\<lambda>ry.
           pybind (getitem2 pos i 2) (\<lambda>z.
           pybind (getitem3 rel_pos j i 2) (\<lambda>rz.
           Inr (ax_plot (Plot3D [x, x + rx] [y, y + ry] [z, z + rz] ''b--'' None) ax))))))))"

text \<open>The five outline calls of lines 252 to 256.\<close>

definition cube_outline :: "real \<Rightarrow> artist list" where
  "cube_outline L =
     [Plot3D [0, L, L, 0, 0] [0, 0, L, L, 0] [0, 0, 0, 0, 0] ''g-'' None,
      Plot3D [0, 0, L, L] [0, 0, 0, 0] [0, L, L, 0] ''g-'' None,
      Plot3D [0, 0, 0] [0, L, L] [L, L, 0] ''g-'' None,
      Plot3D [0, L, L] [L, L, L] [L, L, 0] ''g-'' None,
      Plot3D [L, L] [0, L] [L, L] ''g-'' None]"

definition sigma_label :: "string \<Rightarrow> string \<Rightarrow> string" where
  "sigma_label pre c = pre @ ''$'' @ c @ ''/'' @ [char_of (92 :: nat)] @ ''sigma$''"

definition plot_pos_3D ::
  "(ndarray2 \<Rightarrow> real \<Rightarrow> ndarray3 \<times> ndarray2) \<Rightarrow> canvas \<Rightarrow> ndarray2 \<Rightarrow> real \<Rightarrow> bool \<Rightarrow> bool \<Rightarrow> bool
     \<Rightarrow> py_error + canvas" where
  "plot_pos_3D atomic_distances ax pos L central_box relative_pos outer_boxes =
     pybind (for_each (particle_3D pos L central_box outer_boxes) (py_range (shape0 pos)) ax) (\<lambda>ax1.
     pybind (Inr (set_zlim 0 L (set_ylim 0 L (set_xlim 0 L ax1)))) (\<lambda>ax2.
     pybind (Inr (if central_box then fold ax_plot (cube_outline L) ax2 else ax2)) (\<lambda>ax3.
     pybind (if relative_pos
             then for_each (\<lambda>i. for_each (pair_line_3D pos (fst (atomic_distances pos L)) i)
                                   (py_range (shape0 pos)))
                    (py_range (shape0 pos)) ax3
             else Inr ax3) (\<lambda>ax4.
     Inr (set_ticks_position Z_axis ''both''
         (set_ticks_position Y_axis ''both''
         (set_ticks_position X_axis ''both''
         (tick_params Z_axis ''in''
         (tick_params Y_axis ''in''
         (tick_params X_axis ''in''
         (set_zlabel (sigma_label ''('' ''z'' @ '')'')
         (set_ylabel (sigma_label [] ''y'')
         (set_xlabel (sigma_label [] ''x'') ax4)))))))))))))"

text \<open>The replica offsets in the words of the specification: every combination of
  \<open>- L\<close>, \<open>0\<close> and \<open>L\<close> on each axis.\<close>

definition replica_offsets_2D :: "real \<Rightarrow> (real \<times> real) list" where
  "replica_offsets_2D L = List.product [- L, 0, L] [- L, 0, L]"

definition replica_offsets_3D :: "real \<Rightarrow> (real \<times> real \<times> real) list" where
  "replica_offsets_3D L = List.product [- L, 0, L] (List.product [- L, 0, L] [- L, 0, L])"

text \<open>What the body of the particle loop draws for one row of the positions array, and
  the segment of one pair: the artists the lemmas below speak about.\<close>

definition images_2D :: "real \<Rightarrow> bool \<Rightarrow> real list \<Rightarrow> artist list" where
  "images_2D L central_box row =
     (if central_box then Plot2D [row ! 0] [row ! 1] ''.'' (Some ''black'')
      else Plot2D [row ! 0] [row ! 1] ''r.'' None)
     # map (\<lambda>d. Plot2D [row ! 0 + fst d] [row ! 1 + snd d] ''r.'' None) (neighbour_offsets_2D L)"

definition images_3D :: "real \<Rightarrow> bool \<Rightarrow> bool \<Rightarrow> real list \<Rightarrow> artist list" where
  "images_3D L central_box outer_boxes row =
     (if central_box then Plot3D [row ! 0] [row ! 1] [0] ''.'' (Some ''black'')
      else Plot3D [row ! 0] [row ! 1] [row ! 2] ''r.'' None)
     # (if outer_boxes
        then map (\<lambda>d. Plot3D [row ! 0 + fst d] [row ! 1 + fst (snd d)] [row ! 2 + snd (snd d)]
                         ''r.'' None) (neighbour_offsets_3D L)
        else [])"

definition segment_2D :: "ndarray2 \<Rightarrow> ndarray3 \<Rightarrow> nat \<times> nat \<Rightarrow> artist" where
  "segment_2D pos rel_pos ij =
     Plot2D [pos ! fst ij ! 0, pos ! fst ij ! 0 + rel_pos ! snd ij ! fst ij ! 0]
            [pos ! fst ij ! 1, pos ! fst ij ! 1 + rel_pos ! snd ij ! fst ij ! 1] ''b--'' None"

definition segment_3D :: "ndarray2 \<Rightarrow> ndarray3 \<Rightarrow> nat \<times> nat \<Rightarrow> artist" where
  "segment_3D pos rel_pos ij =
     Plot3D [pos ! fst ij ! 0, pos ! fst ij ! 0 + rel_pos ! snd ij ! fst ij ! 0]
            [pos ! fst ij ! 1, pos ! fst ij ! 1 + rel_pos ! snd ij ! fst ij ! 1]
            [pos ! fst ij ! 2, pos ! fst ij ! 2 + rel_pos ! snd ij ! fst ij ! 2] ''b--'' None"

text \<open>The ordered pairs \<open>(i, j)\<close> of distinct particles, in the order of the two loops.\<close>

definition ordered_pairs :: "nat \<Rightarrow> (nat \<times> nat) list" where
  "ordered_pairs n = concat (map (\<lambda>i. map (Pair i) (filter (\<lambda>j. j \<noteq> i) [0..<n])) [0..<n])"

section \<open>Files, frame names and the two pipelines\<close>

text \<open>
  The world is the working directory: the names \<^verbatim>\<open>os.listdir()\<close> returns, the frame files
  (a saved figure is the canvas it shows), the animations written, and the sequence of
  file operations performed. Writing a file always succeeds in the model; reading a file
  that is absent raises \<^verbatim>\<open>FileNotFoundError\<close>, as \<^verbatim>\<open>imageio.imread\<close> does. Printing,
  \<^verbatim>\<open>fig.tight_layout()\<close> and \<^verbatim>\<open>plt.clf()\<close> are left out: they change neither the axes
  record nor a file. The world after an exception is not kept.
\<close>

datatype io_event = Mkdir string | Savefig string | Imread string | Write_gif string

record animation =
  duration :: real
  frames :: "canvas list"

record world =
  os_listdir :: "string list"
  png_files :: "string \<Rightarrow> canvas option"
  gif_files :: "string \<Rightarrow> animation option"
  io_trace :: "io_event list"

text \<open>The trajectory provider \<^verbatim>\<open>simulate\<close> is a parameter of the pipelines:
  \<^verbatim>\<open>load_data\<close> returns \<^verbatim>\<open>(time, pos, vel)\<close>.\<close>

record provider =
  load_data :: "string \<Rightarrow> ndarray1 \<times> ndarray2 list \<times> ndarray2 list"
  atomic_distances :: "ndarray2 \<Rightarrow> real \<Rightarrow> ndarray3 \<times> ndarray2"

definition os_mkdir :: "string \<Rightarrow> world \<Rightarrow> world" where
  "os_mkdir d w = w\<lparr>os_listdir := os_listdir w @ [d], io_trace := io_trace w @ [Mkdir d]\<rparr>"

definition savefig :: "string \<Rightarrow> canvas \<Rightarrow> world \<Rightarrow> world" where
  "savefig name ax w =
     w\<lparr>png_files := (png_files w)(name := Some ax), io_trace := io_trace w @ [Savefig name]\<rparr>"

definition imread :: "string \<Rightarrow> world \<Rightarrow> py_error + canvas \<times> world" where
  "imread name w =
     (case png_files w name of
        None \<Rightarrow> Inl FileNotFoundError
      | Some img \<Rightarrow> Inr (img, w\<lparr>io_trace := io_trace w @ [Imread name]\<rparr>))"

text \<open>Leaving the \<^verbatim>\<open>with imageio.get_writer(...)\<close> block writes the animation.\<close>

definition close_writer :: "string \<Rightarrow> real \<Rightarrow> canvas list \<Rightarrow> world \<Rightarrow> world" where
  "close_writer gif_name d images w =
     w\<lparr>gif_files := (gif_files w)(gif_name := Some \<lparr>duration = d, frames = images\<rparr>),
       io_trace := io_trace w @ [Write_gif gif_name]\<rparr>"

text \<open>\<^verbatim>\<open>"{:05d}".format(f)\<close> for the index \<open>f\<close> that \<^verbatim>\<open>enumerate\<close> and \<^verbatim>\<open>range\<close> count from
  zero: the decimal digits, padded with zeros on the left to five characters.\<close>

definition digit_char :: "nat \<Rightarrow> char" where
  "digit_char d = ''0123456789'' ! d"

fun digits10 :: "nat \<Rightarrow> string" where
  "digits10 n =
     (if n < 10 then [digit_char n]
      else digits10 (n div 10) @ [digit_char (n mod 10)])"

definition format_05d :: "nat \<Rightarrow> string" where
  "format_05d f = replicate (5 - length (digits10 f)) (CHR ''0'') @ digits10 f"

definition frame_name_2D :: "nat \<Rightarrow> string" where
  "frame_name_2D f = ''tmp-plot/pair_int_2D'' @ format_05d f @ ''.png''"

definition frame_name_3D :: "nat \<Rightarrow> string" where
  "frame_name_3D f = ''tmp-plot/pair_int_3D'' @ format_05d f @ ''.png''"

text \<open>Reading a sequence index back from its digits.\<close>

definition index_of_digits :: "string \<Rightarrow> nat" where
  "index_of_digits s = foldl (\<lambda>a c. 10 * a + (of_char c - 48)) 0 s"

text \<open>Lines 34 and 35.\<close>

definition ensure_tmp_plot :: "world \<Rightarrow> world" where
  "ensure_tmp_plot w =
     (if ''tmp-plot'' \<notin> set (os_listdir w) then os_mkdir ''tmp-plot'' w else w)"

text \<open>The body of the frame loop of \<^verbatim>\<open>GIF_2D\<close>, lines 45 to 49, and the loop, line 42.
  The renderer is called with its default flags.\<close>

definition frame_2D ::
  "provider \<Rightarrow> ndarray1 \<Rightarrow> ndarray2 list \<Rightarrow> real \<Rightarrow> nat \<times> int \<Rightarrow> canvas \<times> world
     \<Rightarrow> py_error + canvas \<times> world" where
  "frame_2D sim time pos box_dim ft s =
     pybind (getitem pos (snd ft)) (\<lambda>pos_t.
     pybind (plot_pos_2D (atomic_distances sim) (fst s) pos_t box_dim True False) (\<lambda>ax1.
     pybind (getitem time (snd ft)) (\<lambda>time_t.
     Inr (cla (set_title time_t ax1),
          savefig (frame_name_2D (fst ft)) (set_title time_t ax1) (snd s)))))"

definition save_frames_2D ::
  "provider \<Rightarrow> ndarray1 \<Rightarrow> ndarray2 list \<Rightarrow> real \<Rightarrow> int list \<Rightarrow> canvas \<times> world
     \<Rightarrow> py_error + canvas \<times> world" where
  "save_frames_2D sim time pos box_dim save_frame s =
     for_each (frame_2D sim time pos box_dim) (enumerate 0 save_frame) s"

text \<open>The Animation Assembler of \<^verbatim>\<open>GIF_2D\<close>, lines 55 to 58; \<open>n\<close> is
  \<^verbatim>\<open>len(save_frame)\<close>.\<close>

definition read_frame :: "string \<Rightarrow> canvas list \<times> world \<Rightarrow> py_error + canvas list \<times> world" where
  "read_frame filename s =
     pybind (imread filename (snd s)) (\<lambda>r. Inr (fst s @ [fst r], snd r))"

definition build_gif_2D :: "string \<Rightarrow> int \<Rightarrow> nat \<Rightarrow> world \<Rightarrow> py_error + world" where
  "build_gif_2D gif_name num_frames n w =
     pybind (truediv 3 num_frames) (\<lambda>d.
     pybind (for_each read_frame (map frame_name_2D [0..<n]) ([], w)) (\<lambda>s.
     Inr (close_writer gif_name d (fst s) (snd s))))"

definition GIF_2D ::
  "provider \<Rightarrow> string \<Rightarrow> string \<Rightarrow> int \<Rightarrow> real \<Rightarrow> world \<Rightarrow> py_error + world" where
  "GIF_2D sim gif_name data_file num_frames box_dim w =
     (let time = fst (load_data sim data_file);
          pos = fst (snd (load_data sim data_file));
          num_tsteps = int (length time)
      in pybind (save_frame_2D num_tsteps num_frames) (\<lambda>save_frame.
         pybind (save_frames_2D sim time pos box_dim save_frame
                   (add_subplot Rectilinear, ensure_tmp_plot w)) (\<lambda>s.
         build_gif_2D gif_name num_frames (length save_frame) (snd s))))"

text \<open>The same three parts of \<^verbatim>\<open>GIF_3D\<close>: lines 99 to 103, 96, 109 to 112.\<close>

definition frame_3D ::
  "provider \<Rightarrow> ndarray1 \<Rightarrow> ndarray2 list \<Rightarrow> real \<Rightarrow> nat \<times> int \<Rightarrow> canvas \<times> world
     \<Rightarrow> py_error + canvas \<times> world" where
  "frame_3D sim time pos box_dim ft s =
     pybind (getitem pos (snd ft)) (\<lambda>pos_t.
     pybind (plot_pos_3D (atomic_distances sim) (fst s) pos_t box_dim True False False) (\<lambda>ax1.
     pybind (getitem time (snd ft)) (\<lambda>time_t.
     Inr (cla (set_title time_t ax1),
          savefig (frame_name_3D (fst ft)) (set_title time_t ax1) (snd s)))))"

definition save_frames_3D ::
  "provider \<Rightarrow> ndarray1 \<Rightarrow> ndarray2 list \<Rightarrow> real \<Rightarrow> int list \<Rightarrow> canvas \<times> world
     \<Rightarrow> py_error + canvas \<times> world" where
  "save_frames_3D sim time pos box_dim save_frame s =
     for_each (frame_3D sim time pos box_dim) (enumerate 0 save_frame) s"

definition build_gif_3D :: "string \<Rightarrow> int \<Rightarrow> nat \<Rightarrow> world \<Rightarrow> py_error + world" where
  "build_gif_3D gif_name num_frames n w =
     pybind (truediv 3 num_frames) (\<lambda>d.
     pybind (for_each read_frame (map frame_name_3D [0..<n]) ([], w)) (\<lambda>s.
     Inr (close_writer gif_name d (fst s) (snd s))))"

definition GIF_3D ::
  "provider \<Rightarrow> string \<Rightarrow> string \<Rightarrow> int \<Rightarrow> real \<Rightarrow> world \<Rightarrow> py_error + world" where
  "GIF_3D sim gif_name data_file num_frames box_dim w =
     (let time = fst (load_data sim data_file);
          pos = fst (snd (load_data sim data_file));
          num_tsteps = int (length time)
      in pybind (save_frame_3D num_tsteps num_frames) (\<lambda>save_frame.
         pybind (save_frames_3D sim time pos box_dim save_frame
                   (add_subplot Projection3D, ensure_tmp_plot w)) (\<lambda>s.
         build_gif_3D gif_name num_frames (length save_frame) (snd s))))"

text \<open>
  One pipeline with the renderer (the kind of axes and the plot function) and the tag of
  the frame names as parameters, and the Sample Plan of the specification in place of the
  comprehension: what the two pipelines are compared with.
\<close>

definition GIF_generic ::
  "projection \<Rightarrow> (canvas \<Rightarrow> ndarray2 \<Rightarrow> real \<Rightarrow> py_error + canvas) \<Rightarrow> string
     \<Rightarrow> provider \<Rightarrow> string \<Rightarrow> string \<Rightarrow> int \<Rightarrow> real \<Rightarrow> world \<Rightarrow> py_error + world" where
  "GIF_generic proj renderer tag sim gif_name data_file num_frames box_dim w =
     (let time = fst (load_data sim data_file);
          pos = fst (snd (load_data sim data_file));
          plan = sample_plan_spec (int (length time)) num_frames;
          name = (\<lambda>f. ''tmp-plot/pair_int_'' @ tag @ format_05d f @ ''.png'')
      in pybind (for_each
                   (\<lambda>ft s.
                      pybind (getitem pos (snd ft)) (\<lambda>pos_t.
                      pybind (renderer (fst s) pos_t box_dim) (\<lambda>ax1.
                      pybind (getitem time (snd ft)) (\<lambda>time_t.
                      Inr (cla (set_title time_t ax1),
                           savefig (name (fst ft)) (set_title time_t ax1) (snd s))))))
                   (enumerate 0 plan) (add_subplot proj, ensure_tmp_plot w)) (\<lambda>s.
         pybind (truediv 3 num_frames) (\<lambda>d.
         pybind (for_each read_frame (map name [0..<length plan]) ([], snd s)) (\<lambda>r.
         Inr (close_writer gif_name d (fst r) (snd r))))))"

text \<open>Shapes: every row of a positions array has at least \<open>d\<close> columns, or exactly \<open>d\<close>.\<close>

definition min_columns :: "nat \<Rightarrow> 'a list list \<Rightarrow> bool" where
  "min_columns d pos = list_all (\<lambda>row. d \<le> length row) pos"

definition has_columns :: "nat \<Rightarrow> 'a list list \<Rightarrow> bool" where
  "has_columns d pos = list_all (\<lambda>row. length row = d) pos"

text \<open>The array \<^verbatim>\<open>rel_pos\<close> has an entry \<^verbatim>\<open>[j,i,k]\<close> for all particles \<open>j\<close>, \<open>i\<close> and
  all \<open>k < d\<close>.\<close>

definition rel_shape :: "nat \<Rightarrow> nat \<Rightarrow> 'a list list list \<Rightarrow> bool" where
  "rel_shape n d rel_pos = (length rel_pos = n \<and> list_all (\<lambda>plane. length plane = n \<and> min_columns d plane) rel_pos)"

text \<open>A dataset the pipelines run on: as many position arrays as times, at least one
  timestep, at least two columns per particle.\<close>

definition dataset_ok :: "provider \<Rightarrow> string \<Rightarrow> bool" where
  "dataset_ok sim data_file =
     (let time = fst (load_data sim data_file);
          pos = fst (snd (load_data sim data_file))
      in 1 \<le> length time \<and> length pos = length time \<and> list_all (min_columns 2) pos)"

text \<open>The frame of a timestep index: the canvas the renderer returns, called with its
  default flags on cleared axes, under the title of that timestep. (Where the renderer
  raises there is no frame; the function then returns the cleared axes.)\<close>

definition rendered_2D :: "provider \<Rightarrow> ndarray2 \<Rightarrow> real \<Rightarrow> canvas" where
  "rendered_2D sim pos_t box_dim =
     (case plot_pos_2D (atomic_distances sim) (add_subplot Rectilinear) pos_t box_dim True False of
        Inl e \<Rightarrow> add_subplot Rectilinear
      | Inr ax \<Rightarrow> ax)"

definition rendered_3D :: "provider \<Rightarrow> ndarray2 \<Rightarrow> real \<Rightarrow> canvas" where
  "rendered_3D sim pos_t box_dim =
     (case plot_pos_3D (atomic_distances sim) (add_subplot Projection3D) pos_t box_dim
             True False False of
        Inl e \<Rightarrow> add_subplot Projection3D
      | Inr ax \<Rightarrow> ax)"

definition frame_image_2D :: "provider \<Rightarrow> string \<Rightarrow> real \<Rightarrow> int \<Rightarrow> canvas" where
  "frame_image_2D sim data_file box_dim t =
     set_title (fst (load_data sim data_file) ! nat t)
       (rendered_2D sim (fst (snd (load_data sim data_file)) ! nat t) box_dim)"

definition frame_image_3D :: "provider \<Rightarrow> string \<Rightarrow> real \<Rightarrow> int \<Rightarrow> canvas" where
  "frame_image_3D sim data_file box_dim t =
     set_title (fst (load_data sim data_file) ! nat t)
       (rendered_3D sim (fst (snd (load_data sim data_file)) ! nat t) box_dim)"

section \<open>Example inputs\<close>

text \<open>A provider that supplies no pair data, for calls that draw no pair lines.\<close>

definition no_pair_lines :: "ndarray2 \<Rightarrow> real \<Rightarrow> ndarray3 \<times> ndarray2" where
  "no_pair_lines pos L = ([], [])"

text \<open>Two particles near opposite corners of a box of length 10, in 2D and in 3D, with the
  displacements \<^verbatim>\<open>rel_pos[j,i]\<close> from particle \<open>i\<close> to the nearest image of particle \<open>j\<close>.\<close>

definition corner_pair_2D :: ndarray2 where
  "corner_pair_2D = [[1, 1], [9, 9]]"

definition corner_rel_2D :: "ndarray2 \<Rightarrow> real \<Rightarrow> ndarray3 \<times> ndarray2" where
  "corner_rel_2D pos L = ([[[0, 0], [2, 2]], [[- 2, - 2], [0, 0]]], [])"

definition corner_pair_3D :: ndarray2 where
  "corner_pair_3D = [[1, 1, 1], [9, 9, 9]]"

definition corner_rel_3D :: "ndarray2 \<Rightarrow> real \<Rightarrow> ndarray3 \<times> ndarray2" where
  "corner_rel_3D pos L = ([[[0, 0, 0], [2, 2, 2]], [[- 2, - 2, - 2], [0, 0, 0]]], [])"

text \<open>A dataset of three timesteps with two particles in two columns, and an empty
  working directory.\<close>

definition demo_sim :: provider where
  "demo_sim =
     \<lparr>load_data = (\<lambda>name. ([0, 1 / 2, 1],
                             [[[1, 2], [3, 4]], [[2, 3], [4, 5]], [[3, 4], [5, 6]]],
                             [[[1, 1], [1, 1]], [[1, 1], [1, 1]], [[1, 1], [1, 1]]])),
      atomic_distances = no_pair_lines\<rparr>"

definition empty_world :: world where
  "empty_world = \<lparr>os_listdir = [], png_files = (\<lambda>name. None), gif_files = (\<lambda>name. None),
     io_trace = []\<rparr>"

text \<open>A working directory in which frame 2 of the five frames of a 2D run is missing.\<close>

definition gap_world :: world where
  "gap_world =
     \<lparr>os_listdir = [''tmp-plot''],
      png_files = (\<lambda>name. if name \<in> set (map frame_name_2D [0, 1, 3, 4])
                           then Some (add_subplot Rectilinear) else None),
      gif_files = (\<lambda>name. None),
      io_trace = []\<rparr>"

section \<open>Sequencing and the Frame Sampler\<close>

lemma pybind_Inr [simp]: "pybind (Inr x) k = k x"
  by (simp add: pybind_def)

lemma pybind_Inl [simp]: "pybind (Inl e) k = Inl e"
  by (simp add: pybind_def)

lemma comprehension_total:
  "(\<And>x. x \<in> set xs \<Longrightarrow> f x = Inr (g x)) \<Longrightarrow> comprehension f xs = Inr (map g xs)"
  by (induction xs) simp_all

lemma py_int_quotient:
  "0 \<le> a \<Longrightarrow> 0 < b \<Longrightarrow> py_int (real_of_int a / real_of_int b) = a div b"
  by (simp add: py_int_def floor_divide_of_int_eq)


lemma sampler_items:
  assumes "1 \<le> T"
  shows "comprehension
           (\<lambda>i. pybind (truediv (i * (T - 1)) (F - 1)) (\<lambda>q. Inr (py_int q)))
           (py_range (F - 1))
         = Inr (map (\<lambda>i. (i * (T - 1)) div (F - 1)) [0..F - 2])"
proof -
  have "comprehension
           (\<lambda>i. pybind (truediv (i * (T - 1)) (F - 1)) (\<lambda>q. Inr (py_int q)))
           [0..F - 2]
         = Inr (map (\<lambda>i. (i * (T - 1)) div (F - 1)) [0..F - 2])"
  proof (rule comprehension_total)
    fix i assume "i \<in> set [0..F - 2]"
    then have i: "0 \<le> i" and F: "0 < F - 1" by auto
    from i assms have "0 \<le> i * (T - 1)" by simp
    with F show "pybind (truediv (i * (T - 1)) (F - 1)) (\<lambda>q. Inr (py_int q))
                 = Inr ((i * (T - 1)) div (F - 1))"
      by (simp add: truediv_def py_int_quotient del: of_int_mult of_int_diff)
  qed
  moreover have "py_range (F - 1) = [0..F - 2]"
    by (simp add: py_range_def)
  ultimately show ?thesis by simp
qed

lemma save_frame_2D_plan: "1 \<le> T \<Longrightarrow> save_frame_2D T F = Inr (sample_plan_spec T F)"
  by (simp add: save_frame_2D_def sampler_items sample_plan_spec_def)

lemma save_frame_3D_plan: "1 \<le> T \<Longrightarrow> save_frame_3D T F = Inr (sample_plan_spec T F)"
  by (simp add: save_frame_3D_def sampler_items sample_plan_spec_def)

lemma plan_length: "1 \<le> F \<Longrightarrow> length (sample_plan_spec T F) = nat F"
  by (simp add: sample_plan_spec_def)

lemma plan_item_bounds:
  assumes "1 \<le> (T::int)" "0 \<le> (i::int)" "i \<le> (F::int) - 2"
  shows "0 \<le> (i * (T - 1)) div (F - 1)" "(i * (T - 1)) div (F - 1) \<le> T - 1"
proof -
  from assms have F: "0 < F - 1" by simp
  from assms show "0 \<le> (i * (T - 1)) div (F - 1)"
    by (simp add: pos_imp_zdiv_nonneg_iff F)
  have "i * (T - 1) \<le> (F - 1) * (T - 1)"
    using assms by (intro mult_right_mono) simp_all
  then have "(i * (T - 1)) div (F - 1) \<le> ((F - 1) * (T - 1)) div (F - 1)"
    using F by (intro zdiv_mono1) simp_all
  with F show "(i * (T - 1)) div (F - 1) \<le> T - 1" by simp
qed

lemma plan_range:
  assumes "1 \<le> T" "t \<in> set (sample_plan_spec T F)"
  shows "0 \<le> t \<and> t \<le> T - 1"
  using assms plan_item_bounds [of T _ F] by (auto simp: sample_plan_spec_def)



lemma plan_last: "last (sample_plan_spec T F) = T - 1"
  by (simp add: sample_plan_spec_def)


section \<open>Loops and indexing\<close>

lemma for_each_accum:
  assumes "\<And>x s. x \<in> set xs \<Longrightarrow> \<exists>s'. body x s = Inr s' \<and> f s' = f s @ h x"
  shows "\<exists>s'. for_each body xs s = Inr s' \<and> f s' = f s @ concat (map h xs)"
  using assms
proof (induction xs arbitrary: s)
  case Nil
  then show ?case by simp
next
  case (Cons x xs)
  from Cons.prems [of x s] obtain s1 where s1: "body x s = Inr s1" "f s1 = f s @ h x"
    by auto
  from Cons.IH [of s1] Cons.prems
  obtain s2 where "for_each body xs s1 = Inr s2" "f s2 = f s1 @ concat (map h xs)"
    by auto
  with s1 show ?case by simp
qed

lemma for_each_invariant:
  assumes "for_each body xs s = Inr s'" and "P s"
    and "\<And>x a b. x \<in> set xs \<Longrightarrow> P a \<Longrightarrow> body x a = Inr b \<Longrightarrow> P b"
  shows "P s'"
  using assms
proof (induction xs arbitrary: s)
  case Nil
  then show ?case by simp
next
  case (Cons x xs)
  from Cons.prems(1) obtain s1 where s1: "body x s = Inr s1" "for_each body xs s1 = Inr s'"
    by (auto simp: pybind_def split: sum.splits)
  from Cons.prems(3) [of x s s1] s1 Cons.prems(2) have "P s1" by simp
  moreover have "\<And>y a b. y \<in> set xs \<Longrightarrow> P a \<Longrightarrow> body y a = Inr b \<Longrightarrow> P b"
    using Cons.prems(3) by (meson list.set_intros(2))
  ultimately show ?case
    using Cons.IH [OF s1(2)] by blast
qed

lemma for_each_first_raises: "body x s = Inl e \<Longrightarrow> for_each body (x # xs) s = Inl e"
  by simp

lemma py_range_nat: "py_range (int n) = map int [0..<n]"
proof (rule nth_equalityI)
  show "length (py_range (int n)) = length (map int [0..<n])"
    by (simp add: py_range_def)
next
  fix i assume "i < length (py_range (int n))"
  then have "i < n" by (simp add: py_range_def)
  then show "py_range (int n) ! i = map int [0..<n] ! i"
    using nth_upto [of 0 i "int n - 1"] by (simp add: py_range_def)
qed

lemma getitem_nat: "i < length a \<Longrightarrow> getitem a (int i) = Inr (a ! i)"
  by (simp add: getitem_def)

lemma getitem_short: "length a \<le> k \<Longrightarrow> getitem a (int k) = Inl IndexError"
  by (simp add: getitem_def)

lemma getitem2_col0:
  "i < length pos \<Longrightarrow> 1 \<le> length (pos ! i) \<Longrightarrow> getitem2 pos (int i) 0 = Inr (pos ! i ! 0)"
  by (auto simp: getitem2_def getitem_nat getitem_def)

lemma getitem2_col1:
  "i < length pos \<Longrightarrow> 2 \<le> length (pos ! i) \<Longrightarrow> getitem2 pos (int i) 1 = Inr (pos ! i ! 1)"
  by (auto simp: getitem2_def getitem_nat getitem_def)

lemma getitem2_col2:
  "i < length pos \<Longrightarrow> 3 \<le> length (pos ! i) \<Longrightarrow> getitem2 pos (int i) 2 = Inr (pos ! i ! 2)"
  by (auto simp: getitem2_def getitem_nat getitem_def)

lemma getitem2_no_col1:
  "i < length pos \<Longrightarrow> length (pos ! i) \<le> 1 \<Longrightarrow> getitem2 pos (int i) 1 = Inl IndexError"
  by (auto simp: getitem2_def getitem_nat getitem_def)

lemma getitem2_no_col2:
  "i < length pos \<Longrightarrow> length (pos ! i) \<le> 2 \<Longrightarrow> getitem2 pos (int i) 2 = Inl IndexError"
  by (auto simp: getitem2_def getitem_nat getitem_def)

lemma min_columns_nth: "min_columns d pos \<Longrightarrow> i < length pos \<Longrightarrow> d \<le> length (pos ! i)"
  by (simp add: min_columns_def list_all_length)

lemma plot_point_2D_ok:
  assumes "i < length pos" "2 \<le> length (pos ! i)"
  shows "plot_point_2D pos (int i) fmt col d ax
         = Inr (ax_plot (Plot2D [pos ! i ! 0 + fst d] [pos ! i ! 1 + snd d] fmt col) ax)"
  using assms by (simp add: plot_point_2D_def getitem2_col0 getitem2_col1)

lemma plot_point_3D_ok:
  assumes "i < length pos" "3 \<le> length (pos ! i)"
  shows "plot_point_3D pos (int i) fmt col d ax
         = Inr (ax_plot (Plot3D [pos ! i ! 0 + fst d] [pos ! i ! 1 + fst (snd d)]
                           [pos ! i ! 2 + snd (snd d)] fmt col) ax)"
  using assms by (simp add: plot_point_3D_def getitem2_col0 getitem2_col1 getitem2_col2)

lemma plot_point_flat_ok:
  assumes "i < length pos" "2 \<le> length (pos ! i)"
  shows "plot_point_flat pos (int i) ax
         = Inr (ax_plot (Plot3D [pos ! i ! 0] [pos ! i ! 1] [0] ''.'' (Some ''black'')) ax)"
  using assms by (simp add: plot_point_flat_def getitem2_col0 getitem2_col1)

section \<open>Pairs, points and offsets\<close>

lemma concat_skip_diagonal:
  "concat (map (\<lambda>j. if i = j then [] else [g j]) js) = map g (filter (\<lambda>j. j \<noteq> i) js)"
  by (induction js) auto

lemma ordered_pairs_length: "length (ordered_pairs n) = n * (n - 1)"
proof -
  have one: "length (filter (\<lambda>j. j \<noteq> i) [0..<n]) = n - 1" if "i < n" for i
  proof -
    have "length (filter (\<lambda>j. j \<noteq> i) [0..<n]) = card (set (filter (\<lambda>j. j \<noteq> i) [0..<n]))"
      by (rule distinct_card [symmetric]) simp
    also have "set (filter (\<lambda>j. j \<noteq> i) [0..<n]) = {0..<n} - {i}" by auto
    also have "card ({0..<n} - {i}) = n - 1" using that by simp
    finally show ?thesis .
  qed
  have "length (ordered_pairs n)
        = sum_list (map (\<lambda>i. length (filter (\<lambda>j. j \<noteq> i) [0..<n])) [0..<n])"
    by (simp add: ordered_pairs_def length_concat comp_def)
  also have "\<dots> = sum_list (map (\<lambda>i. n - 1) [0..<n])"
    by (rule arg_cong [where f = sum_list], rule map_cong) (simp_all add: one)
  also have "\<dots> = n * (n - 1)" by (simp add: sum_list_triv)
  finally show ?thesis .
qed

lemma ordered_pairs_set: "set (ordered_pairs n) = {(i, j). i < n \<and> j < n \<and> i \<noteq> j}"
  by (auto simp: ordered_pairs_def)


lemma points_2D_append: "points_2D (as @ bs) = points_2D as @ points_2D bs"
  by (induction as rule: points_2D.induct) simp_all

lemma points_3D_append: "points_3D (as @ bs) = points_3D as @ points_3D bs"
  by (induction as rule: points_3D.induct) simp_all

lemma points_2D_concat: "points_2D (concat ass) = concat (map points_2D ass)"
  by (induction ass) (simp_all add: points_2D_append)

lemma points_3D_concat: "points_3D (concat ass) = concat (map points_3D ass)"
  by (induction ass) (simp_all add: points_3D_append)

lemma points_2D_images:
  "points_2D (images_2D L cb row)
   = map (\<lambda>d. (row ! 0 + fst d, row ! 1 + snd d)) ((0, 0) # neighbour_offsets_2D L)"
  by (simp add: images_2D_def neighbour_offsets_2D_def)

lemma points_2D_segments: "points_2D (map (segment_2D pos rel) ps) = []"
  by (induction ps) (simp_all add: segment_2D_def)

lemma neighbour_offsets_2D_complete:
  "mset ((0, 0) # neighbour_offsets_2D L) = mset (replica_offsets_2D L)"
  by (simp add: neighbour_offsets_2D_def replica_offsets_2D_def)

lemma neighbour_offsets_3D_complete:
  "mset ((0, 0, 0) # neighbour_offsets_3D L) = mset (replica_offsets_3D L)"
  by (simp add: neighbour_offsets_3D_def replica_offsets_3D_def)

lemma neighbour_offsets_3D_length: "length (neighbour_offsets_3D L) = 26"
  by (simp add: neighbour_offsets_3D_def)

section \<open>What the renderers draw\<close>

lemma particle_2D_artists:
  assumes "i < length pos" "2 \<le> length (pos ! i)"
  shows "\<exists>ax'. particle_2D pos L cb (int i) ax = Inr ax'
           \<and> artists ax' = artists ax @ images_2D L cb (pos ! i)"
  using assms
  by (simp add: particle_2D_def plot_point_2D_ok neighbour_offsets_2D_def images_2D_def
      ax_plot_def)

lemma particle_3D_artists:
  assumes "i < length pos" "(if cb \<and> \<not> ob then 2 else 3) \<le> length (pos ! i)"
  shows "\<exists>ax'. particle_3D pos L cb ob (int i) ax = Inr ax'
           \<and> artists ax' = artists ax @ images_3D L cb ob (pos ! i)"
proof -
  from assms have two: "2 \<le> length (pos ! i)" by (simp split: if_splits)
  show ?thesis
  proof (cases ob)
    case False
    with assms two show ?thesis
      by (cases cb)
        (simp_all add: particle_3D_def plot_point_3D_ok plot_point_flat_ok images_3D_def
          ax_plot_def)
  next
    case True
    with assms have three: "3 \<le> length (pos ! i)" by simp
    from True assms(1) two three show ?thesis
      by (simp add: particle_3D_def plot_point_3D_ok plot_point_flat_ok images_3D_def
          neighbour_offsets_3D_def ax_plot_def set_xlim_def set_ylim_def set_zlim_def)
  qed
qed

lemma map_nth_nat: "map (\<lambda>x. h (pos ! nat x)) (map int [0..<length pos]) = map h pos"
proof -
  have "map (\<lambda>x. h (pos ! nat x)) (map int [0..<length pos])
        = map h (map ((!) pos) [0..<length pos])"
    by (simp add: comp_def)
  also have "\<dots> = map h pos"
    by (simp only: map_nth)
  finally show ?thesis .
qed

lemma particles_loop:
  assumes "\<And>i s. i < length pos \<Longrightarrow> \<exists>s'. body (int i) s = Inr s' \<and> f s' = f s @ h (pos ! i)"
  shows "\<exists>s'. for_each body (py_range (shape0 pos)) s = Inr s'
           \<and> f s' = f s @ concat (map h pos)"
proof -
  have "\<exists>s'. for_each body (map int [0..<length pos]) s = Inr s'
           \<and> f s' = f s @ concat (map (\<lambda>x. h (pos ! nat x)) (map int [0..<length pos]))"
    by (rule for_each_accum) (use assms in auto)
  then show ?thesis
    by (simp only: shape0_def py_range_nat map_nth_nat)
qed

lemma pair_loops:
  assumes "\<And>i j s. i < n \<Longrightarrow> j < n \<Longrightarrow>
             \<exists>s'. body (int i) (int j) s = Inr s'
                \<and> f s' = f s @ (if i = j then [] else [seg (i, j)])"
  shows "\<exists>s'. for_each (\<lambda>i. for_each (body i) (py_range (int n))) (py_range (int n)) s = Inr s'
           \<and> f s' = f s @ map seg (ordered_pairs n)"
proof -
  let ?row = "\<lambda>x. map seg (map (Pair (nat x)) (filter (\<lambda>j. j \<noteq> nat x) [0..<n]))"
  have inner: "\<exists>s'. for_each (body x) (py_range (int n)) s = Inr s' \<and> f s' = f s @ ?row x"
    if "x \<in> set (py_range (int n))" for x s
  proof -
    from that obtain i where i: "x = int i" "i < n" by (auto simp: py_range_nat)
    have "\<exists>s'. for_each (body (int i)) (map int [0..<n]) s = Inr s'
            \<and> f s' = f s @ concat (map (\<lambda>y. if i = nat y then [] else [seg (i, nat y)])
                                      (map int [0..<n]))"
    proof (rule for_each_accum)
      fix y s assume "y \<in> set (map int [0..<n])"
      then obtain j where "y = int j" "j < n" by auto
      with assms [of i j s] i
      show "\<exists>s'. body (int i) y s = Inr s'
              \<and> f s' = f s @ (if i = nat y then [] else [seg (i, nat y)])"
        by (cases "i = j") auto
    qed
    moreover have "concat (map (\<lambda>y. if i = nat y then [] else [seg (i, nat y)]) (map int [0..<n]))
                   = map seg (map (Pair i) (filter (\<lambda>j. j \<noteq> i) [0..<n]))"
      using concat_skip_diagonal [of i "\<lambda>j. seg (i, j)" "[0..<n]"]
      by (simp add: comp_def cong: if_cong)
    ultimately show ?thesis using i by (simp add: py_range_nat)
  qed
  have "\<exists>s'. for_each (\<lambda>i. for_each (body i) (py_range (int n))) (py_range (int n)) s = Inr s'
           \<and> f s' = f s @ concat (map ?row (py_range (int n)))"
    by (rule for_each_accum) (rule inner)
  moreover have "concat (map ?row (py_range (int n))) = map seg (ordered_pairs n)"
    by (simp add: py_range_nat ordered_pairs_def map_concat comp_def)
  ultimately show ?thesis by simp
qed

lemma rel_shape_entry:
  assumes "rel_shape n d rel" "i < n" "j < n"
  shows "j < length rel" "i < length (rel ! j)" "d \<le> length (rel ! j ! i)"
  using assms by (simp_all add: rel_shape_def list_all_length min_columns_def)

lemma getitem3_col0:
  "j < length rel \<Longrightarrow> i < length (rel ! j) \<Longrightarrow> 1 \<le> length (rel ! j ! i)
   \<Longrightarrow> getitem3 rel (int j) (int i) 0 = Inr (rel ! j ! i ! 0)"
  by (simp add: getitem3_def getitem_nat getitem2_col0)

lemma getitem3_col1:
  "j < length rel \<Longrightarrow> i < length (rel ! j) \<Longrightarrow> 2 \<le> length (rel ! j ! i)
   \<Longrightarrow> getitem3 rel (int j) (int i) 1 = Inr (rel ! j ! i ! 1)"
  by (simp add: getitem3_def getitem_nat getitem2_col1)

lemma getitem3_col2:
  "j < length rel \<Longrightarrow> i < length (rel ! j) \<Longrightarrow> 3 \<le> length (rel ! j ! i)
   \<Longrightarrow> getitem3 rel (int j) (int i) 2 = Inr (rel ! j ! i ! 2)"
  by (simp add: getitem3_def getitem_nat getitem2_col2)

lemma pair_line_2D_artists:
  assumes "i < length pos" "j < length pos" "2 \<le> length (pos ! i)"
    and "rel_shape (length pos) 2 rel"
  shows "\<exists>ax'. pair_line_2D pos rel (int i) (int j) ax = Inr ax'
           \<and> artists ax' = artists ax @ (if i = j then [] else [segment_2D pos rel (i, j)])"
proof -
  note e = rel_shape_entry [OF assms(4) assms(1) assms(2)]
  from e(3) have "1 \<le> length (rel ! j ! i)" by simp
  with assms e show ?thesis
    by (simp add: pair_line_2D_def getitem2_col0 getitem2_col1 getitem3_col0 getitem3_col1
        segment_2D_def ax_plot_def)
qed

lemma pair_line_3D_artists:
  assumes "i < length pos" "j < length pos" "3 \<le> length (pos ! i)"
    and "rel_shape (length pos) 3 rel"
  shows "\<exists>ax'. pair_line_3D pos rel (int i) (int j) ax = Inr ax'
           \<and> artists ax' = artists ax @ (if i = j then [] else [segment_3D pos rel (i, j)])"
proof -
  note e = rel_shape_entry [OF assms(4) assms(1) assms(2)]
  from e(3) have "1 \<le> length (rel ! j ! i)" "2 \<le> length (rel ! j ! i)" by simp_all
  with assms e show ?thesis
    by (simp add: pair_line_3D_def getitem2_col0 getitem2_col1 getitem2_col2
        getitem3_col0 getitem3_col1 getitem3_col2 segment_3D_def ax_plot_def)
qed

lemma artists_fold_ax_plot: "artists (fold ax_plot as ax) = artists ax @ as"
  by (induction as arbitrary: ax) (simp_all add: ax_plot_def)

lemma plot_pos_2D_artists:
  assumes "min_columns 2 pos"
    and "rp \<Longrightarrow> rel_shape (length pos) 2 (fst (ad pos L))"
  shows "\<exists>ax'. plot_pos_2D ad ax pos L cb rp = Inr ax'
           \<and> artists ax' = artists ax @ concat (map (images_2D L cb) pos)
               @ (if cb then [Plot2D [0, 0, L, L, 0] [0, L, L, 0, 0] ''g-'' None] else [])
               @ (if rp then map (segment_2D pos (fst (ad pos L))) (ordered_pairs (length pos))
                  else [])"
proof -
  obtain ax1 where ax1:
    "for_each (particle_2D pos L cb) (py_range (shape0 pos)) ax = Inr ax1"
    "artists ax1 = artists ax @ concat (map (images_2D L cb) pos)"
    using particles_loop [of pos "particle_2D pos L cb" artists "images_2D L cb" ax]
      particle_2D_artists min_columns_nth [OF assms(1)] by blast
  define ax2 where
    "ax2 = (if cb then ax_plot (Plot2D [0, 0, L, L, 0] [0, L, L, 0, 0] ''g-'' None) ax1 else ax1)"
  have a2: "artists ax2 = artists ax1
              @ (if cb then [Plot2D [0, 0, L, L, 0] [0, L, L, 0, 0] ''g-'' None] else [])"
    by (simp add: ax2_def ax_plot_def)
  obtain ax3 where ax3:
    "(if rp then for_each (\<lambda>i. for_each (pair_line_2D pos (fst (ad pos L)) i)
                                   (py_range (shape0 pos))) (py_range (shape0 pos)) ax2
      else Inr ax2) = Inr ax3"
    "artists ax3 = artists ax2
       @ (if rp then map (segment_2D pos (fst (ad pos L))) (ordered_pairs (length pos)) else [])"
  proof (cases rp)
    case False
    then show ?thesis using that by simp
  next
    case True
    with assms(2) have rs: "rel_shape (length pos) 2 (fst (ad pos L))" by simp
    have "\<exists>s'. for_each (\<lambda>i. for_each (pair_line_2D pos (fst (ad pos L)) i)
                   (py_range (int (length pos)))) (py_range (int (length pos))) ax2 = Inr s'
             \<and> artists s' = artists ax2
                 @ map (segment_2D pos (fst (ad pos L))) (ordered_pairs (length pos))"
      by (rule pair_loops)
        (use pair_line_2D_artists [OF _ _ _ rs] min_columns_nth [OF assms(1)] in blast)
    with True that show ?thesis by (auto simp: shape0_def)
  qed
  have "plot_pos_2D ad ax pos L cb rp
        = Inr (set_ticks_position X_axis ''both''
              (set_ticks_position Y_axis ''both''
              (tick_params X_axis ''in''
              (tick_params Y_axis ''in''
              (set_ylabel ''dimensionless y coordinate''
              (set_xlabel ''dimensionless x coordinate''
              (set_ylim (- L / 2) (3 * L / 2)
              (set_xlim (- L / 2) (3 * L / 2) ax3))))))))"
    unfolding plot_pos_2D_def using ax1(1) ax3(1)
    by (cases rp; cases cb) (simp_all add: ax2_def)
  then show ?thesis
    using ax1(2) a2 ax3(2)
    by (simp add: set_xlim_def set_ylim_def set_xlabel_def set_ylabel_def
        tick_params_def set_ticks_position_def)
qed

lemma plot_pos_3D_artists:
  assumes "min_columns (if cb \<and> \<not> ob \<and> \<not> rp then 2 else 3) pos"
    and "rp \<Longrightarrow> rel_shape (length pos) 3 (fst (ad pos L))"
  shows "\<exists>ax'. plot_pos_3D ad ax pos L cb rp ob = Inr ax'
           \<and> artists ax' = artists ax @ concat (map (images_3D L cb ob) pos)
               @ (if cb then cube_outline L else [])
               @ (if rp then map (segment_3D pos (fst (ad pos L))) (ordered_pairs (length pos))
                  else [])"
proof -
  have cols: "(if cb \<and> \<not> ob then 2 else 3) \<le> length (pos ! i)" if "i < length pos" for i
    using min_columns_nth [OF assms(1) that] by (simp split: if_splits)
  obtain ax1 where ax1:
    "for_each (particle_3D pos L cb ob) (py_range (shape0 pos)) ax = Inr ax1"
    "artists ax1 = artists ax @ concat (map (images_3D L cb ob) pos)"
    using particles_loop [of pos "particle_3D pos L cb ob" artists "images_3D L cb ob" ax]
      particle_3D_artists cols by blast
  define ax3 where
    "ax3 = (if cb then fold ax_plot (cube_outline L) (set_zlim 0 L (set_ylim 0 L (set_xlim 0 L ax1)))
            else set_zlim 0 L (set_ylim 0 L (set_xlim 0 L ax1)))"
  have a3: "artists ax3 = artists ax1 @ (if cb then cube_outline L else [])"
    by (simp add: ax3_def artists_fold_ax_plot set_xlim_def set_ylim_def set_zlim_def)
  obtain ax4 where ax4:
    "(if rp then for_each (\<lambda>i. for_each (pair_line_3D pos (fst (ad pos L)) i)
                                   (py_range (shape0 pos))) (py_range (shape0 pos)) ax3
      else Inr ax3) = Inr ax4"
    "artists ax4 = artists ax3
       @ (if rp then map (segment_3D pos (fst (ad pos L))) (ordered_pairs (length pos)) else [])"
  proof (cases rp)
    case False
    then show ?thesis using that by simp
  next
    case True
    with assms(2) have rs: "rel_shape (length pos) 3 (fst (ad pos L))" by simp
    from True assms(1) have three: "3 \<le> length (pos ! i)" if "i < length pos" for i
      using min_columns_nth [of 3 pos i] that by simp
    have "\<exists>s'. for_each (\<lambda>i. for_each (pair_line_3D pos (fst (ad pos L)) i)
                   (py_range (int (length pos)))) (py_range (int (length pos))) ax3 = Inr s'
             \<and> artists s' = artists ax3
                 @ map (segment_3D pos (fst (ad pos L))) (ordered_pairs (length pos))"
      by (rule pair_loops) (use pair_line_3D_artists [OF _ _ _ rs] three in blast)
    with True that show ?thesis by (auto simp: shape0_def)
  qed
  have "plot_pos_3D ad ax pos L cb rp ob
        = Inr (set_ticks_position Z_axis ''both''
              (set_ticks_position Y_axis ''both''
              (set_ticks_position X_axis ''both''
              (tick_params Z_axis ''in''
              (tick_params Y_axis ''in''
              (tick_params X_axis ''in''
              (set_zlabel (sigma_label ''('' ''z'' @ '')'')
              (set_ylabel (sigma_label [] ''y'')
              (set_xlabel (sigma_label [] ''x'') ax4)))))))))"
    unfolding plot_pos_3D_def using ax1(1) ax4(1)
    by (cases rp; cases cb) (simp_all add: ax3_def)
  then show ?thesis
    using ax1(2) a3 ax4(2)
    by (simp add: set_xlabel_def set_ylabel_def set_zlabel_def
        tick_params_def set_ticks_position_def)
qed

section \<open>What the renderers leave unchanged\<close>

lemma for_each_preserves:
  assumes "for_each body xs a = Inr b"
    and "\<And>x c d. body x c = Inr d \<Longrightarrow> g d = g c"
  shows "g b = g a"
  by (rule for_each_invariant [OF assms(1), where P = "\<lambda>c. g c = g a"])
    (simp_all add: assms(2))

lemma pybind_InrE:
  assumes "pybind m k = Inr y"
  obtains x where "m = Inr x" "k x = Inr y"
  using assms by (cases m) simp_all

text \<open>Drawing changes the artists of a canvas and nothing else.\<close>

lemma plot_point_2D_rest:
  "plot_point_2D pos i fmt col d c = Inr c' \<Longrightarrow> c'\<lparr>artists := []\<rparr> = c\<lparr>artists := []\<rparr>"
  by (auto simp: plot_point_2D_def ax_plot_def elim!: pybind_InrE)

lemma plot_point_3D_rest:
  "plot_point_3D pos i fmt col d c = Inr c' \<Longrightarrow> c'\<lparr>artists := []\<rparr> = c\<lparr>artists := []\<rparr>"
  by (auto simp: plot_point_3D_def ax_plot_def elim!: pybind_InrE)

lemma plot_point_flat_rest:
  "plot_point_flat pos i c = Inr c' \<Longrightarrow> c'\<lparr>artists := []\<rparr> = c\<lparr>artists := []\<rparr>"
  by (auto simp: plot_point_flat_def ax_plot_def elim!: pybind_InrE)

lemma pair_line_2D_rest:
  "pair_line_2D pos rel i j c = Inr c' \<Longrightarrow> c'\<lparr>artists := []\<rparr> = c\<lparr>artists := []\<rparr>"
  by (cases "i = j") (auto simp: pair_line_2D_def ax_plot_def elim!: pybind_InrE)

lemma pair_line_3D_rest:
  "pair_line_3D pos rel i j c = Inr c' \<Longrightarrow> c'\<lparr>artists := []\<rparr> = c\<lparr>artists := []\<rparr>"
  by (cases "i = j") (auto simp: pair_line_3D_def ax_plot_def elim!: pybind_InrE)

lemma pair_loops_rest:
  assumes "for_each (\<lambda>i. for_each (body i) js) is c = Inr c'"
    and "\<And>i j a b. body i j a = Inr b \<Longrightarrow> b\<lparr>artists := []\<rparr> = a\<lparr>artists := []\<rparr>"
  shows "c'\<lparr>artists := []\<rparr> = c\<lparr>artists := []\<rparr>"
proof (rule for_each_preserves [OF assms(1)])
  fix i a b assume "for_each (body i) js a = Inr b"
  then show "b\<lparr>artists := []\<rparr> = a\<lparr>artists := []\<rparr>"
    by (rule for_each_preserves) (rule assms(2))
qed

lemma rest_projection: "c'\<lparr>artists := []\<rparr> = c\<lparr>artists := []\<rparr> \<Longrightarrow> projection c' = projection c"
  by (drule arg_cong [where f = projection]) simp

lemma rest_limits:
  "c'\<lparr>artists := []\<rparr> = c\<lparr>artists := []\<rparr>
   \<Longrightarrow> xlim c' = xlim c \<and> ylim c' = ylim c \<and> zlim c' = zlim c"
  by (frule arg_cong [where f = xlim], frule arg_cong [where f = ylim],
      drule arg_cong [where f = zlim]) simp

lemma rest_fold_ax_plot: "(fold ax_plot as c)\<lparr>artists := []\<rparr> = c\<lparr>artists := []\<rparr>"
  by (induction as arbitrary: c) (simp_all add: ax_plot_def)

lemma particle_2D_rest:
  assumes "particle_2D pos L cb i c = Inr c'"
  shows "c'\<lparr>artists := []\<rparr> = c\<lparr>artists := []\<rparr>"
proof -
  from assms obtain c1 where
    c1: "(if cb then plot_point_2D pos i ''.'' (Some ''black'') (0, 0) c
          else plot_point_2D pos i ''r.'' None (0, 0) c) = Inr c1"
    and c': "for_each (plot_point_2D pos i ''r.'' None) (neighbour_offsets_2D L) c1 = Inr c'"
    unfolding particle_2D_def by (elim pybind_InrE)
  from c1 have "c1\<lparr>artists := []\<rparr> = c\<lparr>artists := []\<rparr>"
    by (cases cb) (simp_all add: plot_point_2D_rest)
  moreover from c' have "c'\<lparr>artists := []\<rparr> = c1\<lparr>artists := []\<rparr>"
    by (rule for_each_preserves) (rule plot_point_2D_rest)
  ultimately show ?thesis by simp
qed

lemma particle_3D_projection:
  assumes "particle_3D pos L cb ob i c = Inr c'"
  shows "projection c' = projection c"
proof -
  from assms obtain c1 where
    c1: "(if cb then plot_point_flat pos i c else plot_point_3D pos i ''r.'' None (0, 0, 0) c)
         = Inr c1"
    and c': "(if ob
              then pybind (for_each (plot_point_3D pos i ''r.'' None) (neighbour_offsets_3D L) c1)
                     (\<lambda>ax2. Inr (set_zlim (- L) (2 * L) (set_ylim (- L) (2 * L)
                                     (set_xlim (- L) (2 * L) ax2))))
              else Inr c1) = Inr c'"
    unfolding particle_3D_def by (elim pybind_InrE)
  from c1 have p1: "projection c1 = projection c"
    by (cases cb) (auto dest: plot_point_flat_rest plot_point_3D_rest rest_projection)
  show ?thesis
  proof (cases ob)
    case False
    with c' p1 show ?thesis by simp
  next
    case True
    with c' obtain c2 where
      c2: "for_each (plot_point_3D pos i ''r.'' None) (neighbour_offsets_3D L) c1 = Inr c2"
      and e: "c' = set_zlim (- L) (2 * L) (set_ylim (- L) (2 * L) (set_xlim (- L) (2 * L) c2))"
      by (auto elim!: pybind_InrE)
    from c2 have "c2\<lparr>artists := []\<rparr> = c1\<lparr>artists := []\<rparr>"
      by (rule for_each_preserves) (rule plot_point_3D_rest)
    then have "projection c2 = projection c1" by (rule rest_projection)
    with e p1 show ?thesis by (simp add: set_xlim_def set_ylim_def set_zlim_def)
  qed
qed

lemma plot_pos_2D_projection:
  assumes "plot_pos_2D ad ax pos L cb rp = Inr ax'"
  shows "projection ax' = projection ax"
proof -
  from assms obtain ax1 ax2 ax3 where
    ax1: "for_each (particle_2D pos L cb) (py_range (shape0 pos)) ax = Inr ax1"
    and ax2: "ax2 = (if cb then ax_plot (Plot2D [0, 0, L, L, 0] [0, L, L, 0, 0] ''g-'' None) ax1
                     else ax1)"
    and ax3: "(if rp
               then for_each (\<lambda>i. for_each (pair_line_2D pos (fst (ad pos L)) i)
                                     (py_range (shape0 pos))) (py_range (shape0 pos)) ax2
               else Inr ax2) = Inr ax3"
    and ax': "projection ax' = projection ax3"
    unfolding plot_pos_2D_def
    by (elim pybind_InrE)
      (auto simp: set_xlim_def set_ylim_def set_xlabel_def set_ylabel_def tick_params_def
        set_ticks_position_def)
  from ax1 have "ax1\<lparr>artists := []\<rparr> = ax\<lparr>artists := []\<rparr>"
    by (rule for_each_preserves) (rule particle_2D_rest)
  then have "projection ax1 = projection ax" by (rule rest_projection)
  moreover from ax2 have "projection ax2 = projection ax1" by (simp add: ax_plot_def)
  moreover have "projection ax3 = projection ax2"
  proof (cases rp)
    case True
    with ax3 have "ax3\<lparr>artists := []\<rparr> = ax2\<lparr>artists := []\<rparr>"
      using pair_loops_rest [of "pair_line_2D pos (fst (ad pos L))"] pair_line_2D_rest by simp
    then show ?thesis by (rule rest_projection)
  next
    case False
    with ax3 show ?thesis by simp
  qed
  ultimately show ?thesis using ax' by simp
qed

lemma plot_pos_3D_exit:
  assumes "plot_pos_3D ad ax pos L cb rp ob = Inr ax'"
  shows "projection ax' = projection ax"
    and "xlim ax' = Some (0, L) \<and> ylim ax' = Some (0, L) \<and> zlim ax' = Some (0, L)"
proof -
  from assms obtain ax1 ax2 ax3 ax4 where
    ax1: "for_each (particle_3D pos L cb ob) (py_range (shape0 pos)) ax = Inr ax1"
    and ax2: "ax2 = set_zlim 0 L (set_ylim 0 L (set_xlim 0 L ax1))"
    and ax3: "ax3 = (if cb then fold ax_plot (cube_outline L) ax2 else ax2)"
    and ax4: "(if rp
               then for_each (\<lambda>i. for_each (pair_line_3D pos (fst (ad pos L)) i)
                                     (py_range (shape0 pos))) (py_range (shape0 pos)) ax3
               else Inr ax3) = Inr ax4"
    and ax': "projection ax' = projection ax4" "xlim ax' = xlim ax4" "ylim ax' = ylim ax4"
      "zlim ax' = zlim ax4"
    unfolding plot_pos_3D_def
    by (elim pybind_InrE)
      (auto simp: set_xlabel_def set_ylabel_def set_zlabel_def tick_params_def
        set_ticks_position_def)
  from ax1 have p1: "projection ax1 = projection ax"
    by (rule for_each_preserves) (rule particle_3D_projection)
  from ax2 have l2: "projection ax2 = projection ax1"
    "xlim ax2 = Some (0, L) \<and> ylim ax2 = Some (0, L) \<and> zlim ax2 = Some (0, L)"
    by (simp_all add: set_xlim_def set_ylim_def set_zlim_def)
  from ax3 have r3: "ax3\<lparr>artists := []\<rparr> = ax2\<lparr>artists := []\<rparr>"
    by (simp add: rest_fold_ax_plot)
  have r4: "ax4\<lparr>artists := []\<rparr> = ax3\<lparr>artists := []\<rparr>"
  proof (cases rp)
    case True
    with ax4 show ?thesis
      using pair_loops_rest [of "pair_line_3D pos (fst (ad pos L))"] pair_line_3D_rest by simp
  next
    case False
    with ax4 show ?thesis by simp
  qed
  from r3 r4 have r: "ax4\<lparr>artists := []\<rparr> = ax2\<lparr>artists := []\<rparr>" by simp
  from ax'(1) rest_projection [OF r] l2(1) p1 show "projection ax' = projection ax" by simp
  from ax'(2-4) rest_limits [OF r] l2(2)
  show "xlim ax' = Some (0, L) \<and> ylim ax' = Some (0, L) \<and> zlim ax' = Some (0, L)" by simp
qed

section \<open>When the renderers raise\<close>

lemma py_range_first:
  assumes "xs \<noteq> []"
  shows "\<exists>rest. py_range (shape0 xs) = 0 # rest"
proof -
  have "py_range (shape0 xs) = map int [0..<length xs]"
    by (simp only: shape0_def py_range_nat)
  moreover from assms have "[0..<length xs] = 0 # [1..<length xs]"
    by (simp add: upt_conv_Cons)
  ultimately show ?thesis by simp
qed

lemma getitem2_row0_col0:
  "pos \<noteq> [] \<Longrightarrow> length (pos ! 0) = 0 \<Longrightarrow> getitem2 pos 0 0 = Inl IndexError"
  by (cases pos) (simp_all add: getitem2_def getitem_def)

lemma plot_pos_2D_raises:
  assumes "pos \<noteq> []" "length (pos ! 0) < 2"
  shows "plot_pos_2D ad ax pos L cb rp = Inl IndexError"
proof -
  from assms(1) have z: "0 < length pos" by simp
  have p: "plot_point_2D pos 0 fmt col d ax = Inl IndexError" for fmt col d
  proof (cases "length (pos ! 0) = 0")
    case True
    with assms(1) show ?thesis
      by (simp add: plot_point_2D_def getitem2_row0_col0)
  next
    case False
    with assms(2) have "1 \<le> length (pos ! 0)" "length (pos ! 0) \<le> 1" by linarith+
    with z show ?thesis
      using getitem2_col0 [of 0 pos] getitem2_no_col1 [of 0 pos]
      by (simp add: plot_point_2D_def)
  qed
  then have "particle_2D pos L cb 0 ax = Inl IndexError"
    by (simp add: particle_2D_def)
  moreover from py_range_first [OF assms(1)] obtain rest
    where "py_range (shape0 pos) = 0 # rest" by blast
  ultimately show ?thesis by (simp add: plot_pos_2D_def)
qed

lemma plot_pos_3D_raises:
  assumes "pos \<noteq> []" "length (pos ! 0) < 2 \<or> (length (pos ! 0) < 3 \<and> (\<not> cb \<or> ob))"
  shows "plot_pos_3D ad ax pos L cb rp ob = Inl IndexError"
proof -
  from assms(1) have z: "0 < length pos" by simp
  have "particle_3D pos L cb ob 0 ax = Inl IndexError"
  proof (cases "length (pos ! 0) = 0")
    case True
    with assms(1) show ?thesis
      by (simp add: particle_3D_def plot_point_3D_def plot_point_flat_def getitem2_row0_col0)
  next
    case False
    show ?thesis
    proof (cases "length (pos ! 0) = 1")
      case True
      with z show ?thesis
        using getitem2_col0 [of 0 pos] getitem2_no_col1 [of 0 pos]
        by (simp add: particle_3D_def plot_point_3D_def plot_point_flat_def)
    next
      case one: False
      from one False assms(2) have two: "length (pos ! 0) = 2" by linarith
      from one False assms(2) have f: "\<not> cb \<or> ob" by linarith
      from two z have g: "getitem2 pos 0 0 = Inr (pos ! 0 ! 0)" "getitem2 pos 0 1 = Inr (pos ! 0 ! 1)"
        "getitem2 pos 0 2 = Inl IndexError"
        using getitem2_col0 [of 0 pos] getitem2_col1 [of 0 pos] getitem2_no_col2 [of 0 pos]
        by simp_all
      then have p: "plot_point_3D pos 0 fmt col d c = Inl IndexError" for fmt col d c
        by (simp add: plot_point_3D_def)
      show ?thesis
      proof (cases cb)
        case False
        then show ?thesis by (simp add: particle_3D_def p)
      next
        case True
        with f have ob by simp
        with True g show ?thesis
          by (simp add: particle_3D_def plot_point_flat_def p neighbour_offsets_3D_def)
      qed
    qed
  qed
  moreover from py_range_first [OF assms(1)] obtain rest
    where "py_range (shape0 pos) = 0 # rest" by blast
  ultimately show ?thesis by (simp add: plot_pos_3D_def)
qed

lemma has_columns_min: "has_columns d pos \<Longrightarrow> k \<le> d \<Longrightarrow> min_columns k pos"
  by (simp add: has_columns_def min_columns_def list_all_length)

lemma has_columns_first: "has_columns d pos \<Longrightarrow> pos \<noteq> [] \<Longrightarrow> length (pos ! 0) = d"
  by (cases pos) (simp_all add: has_columns_def)

lemma concat_map_Nil: "concat (map (\<lambda>x. []) xs) = []"
  by (induction xs) simp_all

lemma pair_lines_images_2D: "filter is_pair_line (concat (map (images_2D L cb) pos)) = []"
  by (simp add: filter_concat comp_def images_2D_def neighbour_offsets_2D_def concat_map_Nil)

lemma pair_lines_images_3D: "filter is_pair_line (concat (map (images_3D L cb ob) pos)) = []"
  by (simp add: filter_concat comp_def images_3D_def neighbour_offsets_3D_def concat_map_Nil)

lemma pair_lines_outline: "filter is_pair_line (cube_outline L) = []"
  by (simp add: cube_outline_def)

lemma pair_lines_segments_2D:
  "filter is_pair_line (map (segment_2D pos rel) ps) = map (segment_2D pos rel) ps"
  by (induction ps) (simp_all add: segment_2D_def)

lemma pair_lines_segments_3D:
  "filter is_pair_line (map (segment_3D pos rel) ps) = map (segment_3D pos rel) ps"
  by (induction ps) (simp_all add: segment_3D_def)

lemma points_3D_images:
  "points_3D (images_3D L False True row)
   = map (\<lambda>d. (row ! 0 + fst d, row ! 1 + fst (snd d), row ! 2 + snd (snd d)))
       ((0, 0, 0) # neighbour_offsets_3D L)"
  by (simp add: images_3D_def neighbour_offsets_3D_def)

section \<open>The pair lines of a canvas\<close>

lemma pair_lines_2D_result:
  assumes "artists ax' = artists ax @ concat (map (images_2D L cb) pos)
             @ (if cb then [Plot2D [0, 0, L, L, 0] [0, L, L, 0, 0] ''g-'' None] else [])
             @ map (segment_2D pos rel) ps"
  shows "pair_lines ax' = pair_lines ax @ map (segment_2D pos rel) ps"
  unfolding pair_lines_def assms
  by (simp add: pair_lines_images_2D pair_lines_segments_2D)

lemma pair_lines_3D_result:
  assumes "artists ax' = artists ax @ concat (map (images_3D L cb ob) pos)
             @ (if cb then cube_outline L else [])
             @ map (segment_3D pos rel) ps"
  shows "pair_lines ax' = pair_lines ax @ map (segment_3D pos rel) ps"
  unfolding pair_lines_def assms
  by (simp add: pair_lines_images_3D pair_lines_segments_3D pair_lines_outline)

lemma ordered_pairs_two: "ordered_pairs (Suc (Suc 0)) = [(0, Suc 0), (Suc 0, 0)]"
  by (simp add: ordered_pairs_def)

section \<open>Frame names\<close>

declare digits10.simps [simp del]

lemma index_of_digits_snoc:
  "index_of_digits (s @ [c]) = 10 * index_of_digits s + (of_char c - 48)"
  by (simp add: index_of_digits_def)

lemma ten_cases:
  assumes "(d::nat) < 10"
  obtains "d = 0" | "d = 1" | "d = 2" | "d = 3" | "d = 4" | "d = 5" | "d = 6" | "d = 7"
    | "d = 8" | "d = 9"
  using assms by (auto simp: numeral_eq_Suc less_Suc_eq)

lemma digit_value: "d < 10 \<Longrightarrow> of_char (digit_char d) - 48 = (d :: nat)"
  by (erule ten_cases) (simp_all add: digit_char_def)

lemma index_of_digits10: "index_of_digits (digits10 n) = n"
proof (induction n rule: digits10.induct)
  case (1 n)
  show ?case
  proof (cases "n < 10")
    case True
    then show ?thesis
      using digit_value [of n] index_of_digits_snoc [of "[]"]
      by (simp add: digits10.simps [of n] index_of_digits_def)
  next
    case False
    with 1 have "index_of_digits (digits10 (n div 10)) = n div 10" by simp
    with False show ?thesis
      using digit_value [of "n mod 10"]
      by (simp add: digits10.simps [of n] index_of_digits_snoc)
  qed
qed

lemma index_of_leading_zeros:
  "index_of_digits (replicate k (CHR ''0'') @ s) = index_of_digits s"
  by (induction k) (simp_all add: index_of_digits_def)

lemma index_of_format_05d: "index_of_digits (format_05d f) = f"
  by (simp add: format_05d_def index_of_leading_zeros index_of_digits10)

lemma format_05d_inj: "format_05d f = format_05d g \<Longrightarrow> f = g"
  using index_of_format_05d by metis




lemma frame_name_2D_inj: "frame_name_2D f = frame_name_2D g \<Longrightarrow> f = g"
  by (simp add: frame_name_2D_def format_05d_inj)




lemma replicate_four: "replicate 4 c = [c, c, c, c]"
  by (simp add: eval_nat_numeral)

lemma format_05d_small: "f < 10 \<Longrightarrow> format_05d f = ''0000'' @ [digit_char f]"
  by (simp add: format_05d_def digits10.simps [of f] replicate_four)

lemma format_examples: "format_05d 0 = ''00000''" "format_05d 4 = ''00004''"
  by (simp_all add: format_05d_small digit_char_def)

lemma frame_name_examples:
  "frame_name_2D 0 = ''tmp-plot/pair_int_2D00000.png''"
  "frame_name_3D 4 = ''tmp-plot/pair_int_3D00004.png''"
  by (simp_all add: frame_name_2D_def frame_name_3D_def format_05d_small digit_char_def)

section \<open>The assembly loop and the frame loop\<close>

lemma read_loop:
  "for_each read_frame names (acc, w)
   = (if list_all (\<lambda>n. png_files w n \<noteq> None) names
      then Inr (acc @ map (\<lambda>n. the (png_files w n)) names,
                w\<lparr>io_trace := io_trace w @ map Imread names\<rparr>)
      else Inl FileNotFoundError)"
proof (induction names arbitrary: acc w)
  case Nil
  then show ?case by simp
next
  case (Cons n names)
  show ?case
  proof (cases "png_files w n")
    case None
    then show ?thesis by (simp add: read_frame_def imread_def)
  next
    case (Some img)
    then have "for_each read_frame (n # names) (acc, w)
               = for_each read_frame names (acc @ [img], w\<lparr>io_trace := io_trace w @ [Imread n]\<rparr>)"
      by (simp add: read_frame_def imread_def)
    with Some show ?thesis by (simp add: Cons.IH)
  qed
qed

lemma frames_loop:
  assumes "\<And>f t w. t \<in> set plan \<Longrightarrow> body (f, t) (c0, w) = Inr (c0, savefig (name f) (img t) w)"
  shows "for_each body (enumerate k plan) (c0, w)
         = Inr (c0, fold (\<lambda>ft. savefig (name (fst ft)) (img (snd ft))) (enumerate k plan) w)"
  using assms by (induction plan arbitrary: k w) simp_all

lemma saved_trace:
  "io_trace (fold (\<lambda>ft. savefig (name (fst ft)) (img (snd ft))) (enumerate k plan) w)
   = io_trace w @ map (\<lambda>f. Savefig (name f)) [k..<k + length plan]"
proof (induction plan arbitrary: k w)
  case Nil
  then show ?case by simp
next
  case (Cons t plan)
  have "io_trace (fold (\<lambda>ft. savefig (name (fst ft)) (img (snd ft))) (enumerate k (t # plan)) w)
        = io_trace (fold (\<lambda>ft. savefig (name (fst ft)) (img (snd ft))) (enumerate (Suc k) plan)
                     (savefig (name k) (img t) w))"
    by simp
  also have "\<dots> = io_trace (savefig (name k) (img t) w)
                    @ map (\<lambda>f. Savefig (name f)) [Suc k..<Suc k + length plan]"
    by (rule Cons.IH)
  also have "\<dots> = io_trace w @ map (\<lambda>f. Savefig (name f)) [k..<k + length (t # plan)]"
    by (simp add: savefig_def upt_conv_Cons del: upt_Suc)
  finally show ?case .
qed

lemma saved_listdir:
  "os_listdir (fold (\<lambda>ft. savefig (name (fst ft)) (img (snd ft))) (enumerate k plan) w)
   = os_listdir w"
  by (induction plan arbitrary: k w) (simp_all add: savefig_def)

lemma saved_gifs:
  "gif_files (fold (\<lambda>ft. savefig (name (fst ft)) (img (snd ft))) (enumerate k plan) w)
   = gif_files w"
  by (induction plan arbitrary: k w) (simp_all add: savefig_def)

lemma saved_other:
  assumes "\<And>f. n \<noteq> name f"
  shows "png_files (fold (\<lambda>ft. savefig (name (fst ft)) (img (snd ft))) (enumerate k plan) w) n
         = png_files w n"
  using assms by (induction plan arbitrary: k w) (simp_all add: savefig_def)

lemma saved_earlier:
  assumes "inj name" "j < k"
  shows "png_files (fold (\<lambda>ft. savefig (name (fst ft)) (img (snd ft))) (enumerate k plan) w)
           (name j) = png_files w (name j)"
  using assms
proof (induction plan arbitrary: k w)
  case Nil
  then show ?case by simp
next
  case (Cons t plan)
  from Cons.prems have "name j \<noteq> name k" by (auto dest: injD)
  with Cons.IH [of "Suc k"] Cons.prems show ?case by (simp add: savefig_def)
qed

lemma saved_files:
  assumes "inj name" "i < length plan"
  shows "png_files (fold (\<lambda>ft. savefig (name (fst ft)) (img (snd ft))) (enumerate k plan) w)
           (name (k + i)) = Some (img (plan ! i))"
  using assms
proof (induction plan arbitrary: k w i)
  case Nil
  then show ?case by simp
next
  case (Cons t plan)
  show ?case
  proof (cases i)
    case 0
    have "png_files (fold (\<lambda>ft. savefig (name (fst ft)) (img (snd ft)))
                       (enumerate (Suc k) plan) (savefig (name k) (img t) w)) (name k)
          = png_files (savefig (name k) (img t) w) (name k)"
      by (rule saved_earlier [OF Cons.prems(1)]) simp
    moreover have "png_files (savefig (name k) (img t) w) (name k) = Some (img t)"
      by (simp add: savefig_def)
    ultimately show ?thesis using 0 by simp
  next
    case (Suc i')
    with Cons.prems Cons.IH [of i' "Suc k"] show ?thesis by simp
  qed
qed

section \<open>A run of a pipeline\<close>

lemma getitem_int: "0 \<le> i \<Longrightarrow> i < int (length a) \<Longrightarrow> getitem a i = Inr (a ! nat i)"
  by (simp add: getitem_def)

lemma dataset_okD:
  assumes "dataset_ok sim d"
  shows "1 \<le> length (fst (load_data sim d))"
    and "length (fst (snd (load_data sim d))) = length (fst (load_data sim d))"
    and "i < length (fst (load_data sim d)) \<Longrightarrow> min_columns 2 (fst (snd (load_data sim d)) ! i)"
  using assms by (simp_all add: dataset_ok_def Let_def list_all_length)

lemma tag_name_inj:
  "inj (\<lambda>f. ''tmp-plot/pair_int_'' @ tag @ format_05d f @ ''.png'')"
  by (rule injI) (simp add: format_05d_inj)

lemma GIF_generic_run:
  fixes sim :: provider and d :: string and F :: int and L :: real and tag :: string
    and renderer :: "canvas \<Rightarrow> ndarray2 \<Rightarrow> real \<Rightarrow> py_error + canvas" and proj :: projection
  assumes ok: "dataset_ok sim d" and F: "F \<noteq> 0"
    and r: "\<And>p. min_columns 2 p
              \<Longrightarrow> \<exists>ax. renderer (add_subplot proj) p L = Inr ax \<and> projection ax = proj"
  defines "plan \<equiv> sample_plan_spec (int (length (fst (load_data sim d)))) F"
    and "name \<equiv> \<lambda>f. ''tmp-plot/pair_int_'' @ tag @ format_05d f @ ''.png''"
    and "img \<equiv> \<lambda>t. set_title (fst (load_data sim d) ! nat t)
                    (case renderer (add_subplot proj) (fst (snd (load_data sim d)) ! nat t) L of
                       Inl e \<Rightarrow> add_subplot proj | Inr ax \<Rightarrow> ax)"
  shows "\<exists>w'. GIF_generic proj renderer tag sim g d F L w = Inr w'
           \<and> io_trace w' = io_trace (ensure_tmp_plot w)
               @ map (\<lambda>f. Savefig (name f)) [0..<length plan]
               @ map (\<lambda>f. Imread (name f)) [0..<length plan] @ [Write_gif g]
           \<and> gif_files w' g = Some \<lparr>duration = 3 / real_of_int F, frames = map img plan\<rparr>
           \<and> list_all (\<lambda>f. png_files w' (name f) = Some (img (plan ! f))) [0..<length plan]
           \<and> os_listdir w' = os_listdir (ensure_tmp_plot w)"
proof -
  let ?time = "fst (load_data sim d)"
  let ?pos = "fst (snd (load_data sim d))"
  let ?c0 = "add_subplot proj"
  let ?body = "\<lambda>ft s.
      pybind (getitem ?pos (snd ft)) (\<lambda>pos_t.
      pybind (renderer (fst s) pos_t L) (\<lambda>ax1.
      pybind (getitem ?time (snd ft)) (\<lambda>time_t.
      Inr (cla (set_title time_t ax1),
           savefig (name (fst ft)) (set_title time_t ax1) (snd s)))))"
  note d = dataset_okD [OF ok]
  have step: "?body (f, t) (?c0, v) = Inr (?c0, savefig (name f) (img t) v)"
    if "t \<in> set plan" for f t v
  proof -
    from that d(1) have t: "0 \<le> t" "t < int (length ?time)"
      using plan_range [of "int (length ?time)" t F] by (simp_all add: plan_def)
    then have n: "nat t < length ?time" by simp
    from r [OF d(3) [OF n]] obtain ax where
      ax: "renderer ?c0 (?pos ! nat t) L = Inr ax" "projection ax = proj" by blast
    from t d(2) have "getitem ?pos t = Inr (?pos ! nat t)" "getitem ?time t = Inr (?time ! nat t)"
      by (simp_all add: getitem_int)
    with ax show ?thesis
      by (simp add: img_def cla_def set_title_def)
  qed
  define W where
    "W = fold (\<lambda>ft. savefig (name (fst ft)) (img (snd ft))) (enumerate 0 plan) (ensure_tmp_plot w)"
  have loop: "for_each ?body (enumerate 0 plan) (?c0, ensure_tmp_plot w) = Inr (?c0, W)"
    unfolding W_def by (rule frames_loop) (rule step)
  have files: "png_files W (name f) = Some (img (plan ! f))" if "f < length plan" for f
    using saved_files [OF tag_name_inj that, of tag img 0 "ensure_tmp_plot w"]
    by (simp add: W_def name_def)
  then have present: "list_all (\<lambda>n. png_files W n \<noteq> None) (map name [0..<length plan])"
    by (simp add: list_all_iff)
  have read: "map (\<lambda>n. the (png_files W n)) (map name [0..<length plan]) = map img plan"
    by (rule nth_equalityI) (simp_all add: files)
  define w' where
    "w' = close_writer g (3 / real_of_int F) (map img plan)
            (W\<lparr>io_trace := io_trace W @ map Imread (map name [0..<length plan])\<rparr>)"
  have run: "GIF_generic proj renderer tag sim g d F L w = Inr w'"
    unfolding GIF_generic_def Let_def plan_def [symmetric] name_def [symmetric]
    using loop F present read
    by (simp add: read_loop truediv_def w'_def)
  have "io_trace W = io_trace (ensure_tmp_plot w) @ map (\<lambda>f. Savefig (name f)) [0..<length plan]"
    using saved_trace [of name img 0 plan "ensure_tmp_plot w"] by (simp add: W_def)
  then have "io_trace w' = io_trace (ensure_tmp_plot w)
               @ map (\<lambda>f. Savefig (name f)) [0..<length plan]
               @ map (\<lambda>f. Imread (name f)) [0..<length plan] @ [Write_gif g]"
    by (simp add: w'_def close_writer_def comp_def)
  moreover have "gif_files w' g = Some \<lparr>duration = 3 / real_of_int F, frames = map img plan\<rparr>"
    by (simp add: w'_def close_writer_def)
  moreover have "list_all (\<lambda>f. png_files w' (name f) = Some (img (plan ! f))) [0..<length plan]"
    using files by (simp add: w'_def close_writer_def list_all_iff)
  moreover have "os_listdir w' = os_listdir (ensure_tmp_plot w)"
    by (simp add: w'_def close_writer_def W_def saved_listdir)
  ultimately show ?thesis using run by blast
qed

lemma GIF_2D_generic:
  assumes "1 \<le> length (fst (load_data sim d))"
  shows "GIF_2D sim g d F L w
         = GIF_generic Rectilinear
             (\<lambda>ax p l. plot_pos_2D (atomic_distances sim) ax p l True False) ''2D'' sim g d F L w"
  using assms
  by (simp add: GIF_2D_def GIF_generic_def Let_def save_frame_2D_plan save_frames_2D_def
      frame_2D_def [abs_def] build_gif_2D_def frame_name_2D_def [abs_def])

lemma GIF_3D_generic:
  assumes "1 \<le> length (fst (load_data sim d))"
  shows "GIF_3D sim g d F L w
         = GIF_generic Projection3D
             (\<lambda>ax p l. plot_pos_3D (atomic_distances sim) ax p l True False False) ''3D''
             sim g d F L w"
  using assms
  by (simp add: GIF_3D_def GIF_generic_def Let_def save_frame_3D_plan save_frames_3D_def
      frame_3D_def [abs_def] build_gif_3D_def frame_name_3D_def [abs_def])

lemma render_2D_default:
  assumes "min_columns 2 p"
  shows "\<exists>ax. plot_pos_2D ad (add_subplot Rectilinear) p L True False = Inr ax
           \<and> projection ax = Rectilinear"
proof -
  from plot_pos_2D_artists [where pos = p and rp = False and ad = ad and L = L
      and ax = "add_subplot Rectilinear" and cb = True] assms
  obtain ax where ax: "plot_pos_2D ad (add_subplot Rectilinear) p L True False = Inr ax"
    by auto
  from plot_pos_2D_projection [OF ax] have "projection ax = Rectilinear"
    by (simp add: add_subplot_def)
  with ax show ?thesis by blast
qed

lemma render_3D_default:
  assumes "min_columns 2 p"
  shows "\<exists>ax. plot_pos_3D ad (add_subplot Projection3D) p L True False False = Inr ax
           \<and> projection ax = Projection3D"
proof -
  from plot_pos_3D_artists [where pos = p and rp = False and ad = ad and L = L
      and ax = "add_subplot Projection3D" and cb = True and ob = False] assms
  obtain ax where ax: "plot_pos_3D ad (add_subplot Projection3D) p L True False False = Inr ax"
    by auto
  from plot_pos_3D_exit(1) [OF ax] have "projection ax = Projection3D"
    by (simp add: add_subplot_def)
  with ax show ?thesis by blast
qed

lemma GIF_2D_run:
  assumes ok: "dataset_ok sim d" and F: "F \<noteq> 0"
  shows "\<exists>w'. GIF_2D sim g d F L w = Inr w'
           \<and> io_trace w' = io_trace (ensure_tmp_plot w)
               @ map (\<lambda>f. Savefig (frame_name_2D f))
                   [0..<length (sample_plan_spec (int (length (fst (load_data sim d)))) F)]
               @ map (\<lambda>f. Imread (frame_name_2D f))
                   [0..<length (sample_plan_spec (int (length (fst (load_data sim d)))) F)]
               @ [Write_gif g]
           \<and> gif_files w' g
               = Some \<lparr>duration = 3 / real_of_int F,
                       frames = map (frame_image_2D sim d L)
                                  (sample_plan_spec (int (length (fst (load_data sim d)))) F)\<rparr>
           \<and> list_all (\<lambda>f. png_files w' (frame_name_2D f)
                            = Some (frame_image_2D sim d L
                                (sample_plan_spec (int (length (fst (load_data sim d)))) F ! f)))
               [0..<length (sample_plan_spec (int (length (fst (load_data sim d)))) F)]
           \<and> os_listdir w' = os_listdir (ensure_tmp_plot w)"
  using GIF_generic_run [OF ok F, of "\<lambda>ax p l. plot_pos_2D (atomic_distances sim) ax p l True False"
      Rectilinear L "''2D''" g w] render_2D_default
    GIF_2D_generic [OF dataset_okD(1) [OF ok], of g F L w]
  by (simp add: frame_name_2D_def [abs_def] frame_image_2D_def [abs_def] rendered_2D_def)

lemma GIF_3D_run:
  assumes ok: "dataset_ok sim d" and F: "F \<noteq> 0"
  shows "\<exists>w'. GIF_3D sim g d F L w = Inr w'
           \<and> io_trace w' = io_trace (ensure_tmp_plot w)
               @ map (\<lambda>f. Savefig (frame_name_3D f))
                   [0..<length (sample_plan_spec (int (length (fst (load_data sim d)))) F)]
               @ map (\<lambda>f. Imread (frame_name_3D f))
                   [0..<length (sample_plan_spec (int (length (fst (load_data sim d)))) F)]
               @ [Write_gif g]
           \<and> gif_files w' g
               = Some \<lparr>duration = 3 / real_of_int F,
                       frames = map (frame_image_3D sim d L)
                                  (sample_plan_spec (int (length (fst (load_data sim d)))) F)\<rparr>
           \<and> list_all (\<lambda>f. png_files w' (frame_name_3D f)
                            = Some (frame_image_3D sim d L
                                (sample_plan_spec (int (length (fst (load_data sim d)))) F ! f)))
               [0..<length (sample_plan_spec (int (length (fst (load_data sim d)))) F)]
           \<and> os_listdir w' = os_listdir (ensure_tmp_plot w)"
  using GIF_generic_run [OF ok F,
      of "\<lambda>ax p l. plot_pos_3D (atomic_distances sim) ax p l True False False"
      Projection3D L "''3D''" g w] render_3D_default
    GIF_3D_generic [OF dataset_okD(1) [OF ok], of g F L w]
  by (simp add: frame_name_3D_def [abs_def] frame_image_3D_def [abs_def] rendered_3D_def)

lemma build_gif_2D_result:
  "build_gif_2D g F n w
   = (if F = 0 then Inl ZeroDivisionError
      else if list_all (\<lambda>f. png_files w (frame_name_2D f) \<noteq> None) [0..<n]
      then Inr (close_writer g (3 / real_of_int F)
                  (map (\<lambda>f. the (png_files w (frame_name_2D f))) [0..<n])
                  (w\<lparr>io_trace := io_trace w @ map (\<lambda>f. Imread (frame_name_2D f)) [0..<n]\<rparr>))
      else Inl FileNotFoundError)"
  by (auto simp: build_gif_2D_def truediv_def read_loop list_all_iff comp_def)

lemma build_gif_3D_result:
  "build_gif_3D g F n w
   = (if F = 0 then Inl ZeroDivisionError
      else if list_all (\<lambda>f. png_files w (frame_name_3D f) \<noteq> None) [0..<n]
      then Inr (close_writer g (3 / real_of_int F)
                  (map (\<lambda>f. the (png_files w (frame_name_3D f))) [0..<n])
                  (w\<lparr>io_trace := io_trace w @ map (\<lambda>f. Imread (frame_name_3D f)) [0..<n]\<rparr>))
      else Inl FileNotFoundError)"
  by (auto simp: build_gif_3D_def truediv_def read_loop list_all_iff comp_def)

lemma frame_name_2D_eq: "frame_name_2D f = frame_name_2D g \<longleftrightarrow> f = g"
  using frame_name_2D_inj by blast



lemma save_frame_one: "save_frame_2D T 1 = Inr [T - 1]" "save_frame_3D T 1 = Inr [T - 1]"
  by (simp_all add: save_frame_2D_def save_frame_3D_def py_range_def)

lemma plan_one: "sample_plan_spec T 1 = [T - 1]"
  by (simp add: sample_plan_spec_def)

lemma demo_ok: "dataset_ok demo_sim d"
  by (simp add: dataset_ok_def demo_sim_def min_columns_def)

lemma ensure_empty: "io_trace (ensure_tmp_plot empty_world) = [Mkdir ''tmp-plot'']"
  by (simp add: ensure_tmp_plot_def empty_world_def os_mkdir_def)

lemma gap_world_frame_2: "png_files gap_world (frame_name_2D 2) = None"
  by (simp add: gap_world_def frame_name_2D_eq)

lemma gap_world_other: "png_files gap_world ''tmp-plot/other.png'' = None"
  by (simp add: gap_world_def frame_name_2D_def)

section \<open>Rounding to a double and the sampler\<close>

text \<open>
  A quotient of two integers, the numerator below \<open>2 ^ 53\<close>, that is not an integer lies at
  least one part in \<open>2 ^ 53\<close> of itself below the next integer, so rounding it to a double
  never reaches that integer and \<^verbatim>\<open>int\<close> of the rounded quotient is the integer quotient.
  Above \<open>2 ^ 53\<close> the rounding can reach the next integer.
\<close>

lemma rhe_ge_floor: "\<lfloor>y\<rfloor> \<le> round_half_even y"
  by (simp add: round_half_even_def)

lemma rhe_ge_int: "of_int n \<le> y \<Longrightarrow> n \<le> round_half_even y"
  using rhe_ge_floor [of y] le_floor_iff [of n y] by linarith

lemma rhe_lt_int:
  assumes "y < of_int n - 1 / 2"
  shows "round_half_even y \<le> n - 1"
proof -
  from assms have "y < of_int n" by linarith
  then have f: "\<lfloor>y\<rfloor> \<le> n - 1" by (simp add: floor_less_iff)
  show ?thesis
  proof (cases "\<lfloor>y\<rfloor> = n - 1")
    case True
    with assms have "y - of_int \<lfloor>y\<rfloor> < 1 / 2" by simp
    with True show ?thesis by (simp add: round_half_even_def)
  next
    case False
    with f have "\<lfloor>y\<rfloor> + 1 \<le> n - 1" by linarith
    moreover have "round_half_even y \<le> \<lfloor>y\<rfloor> + 1" by (simp add: round_half_even_def)
    ultimately show ?thesis by linarith
  qed
qed

lemma round_double_scaled:
  assumes "0 < x" "x < 2 ^ 53"
  shows "\<exists>m. round_double x = real_of_int (round_half_even (x * 2 ^ m)) / 2 ^ m
           \<and> 2 ^ 52 \<le> x * 2 ^ m"
proof -
  define e where "e = \<lfloor>log 2 \<bar>x\<bar>\<rfloor>"
  from assms(1) have ex: "\<lfloor>log 2 x\<rfloor> = e" by (simp add: e_def)
  from assms(1) ex have lo: "2 powr real_of_int e \<le> x" and hi: "x < 2 powr real_of_int (e + 1)"
    using floor_log_eq_powr_iff [of x 2 e] by simp_all
  have e52: "e \<le> 52"
  proof (rule ccontr)
    assume "\<not> e \<le> 52"
    then have "53 \<le> e" by simp
    then have "(2 :: real) powr real_of_int 53 \<le> 2 powr real_of_int e"
      by (intro powr_mono) simp_all
    also note lo
    finally show False using assms(2) by (simp add: powr_int)
  qed
  define m where "m = nat (52 - e)"
  have u: "(2 :: real) powr (real_of_int e - 52) = 1 / 2 ^ m"
    using e52 powr_int [of 2 "e - 52"] by (cases "e = 52") (simp_all add: m_def)
  have "(2 :: real) powr real_of_int e = 2 ^ 52 * 2 powr (real_of_int e - 52)"
    by (simp add: powr_diff)
  also have "\<dots> = 2 ^ 52 / 2 ^ m"
    by (simp only: u) simp
  finally have "(2 :: real) ^ 52 / 2 ^ m \<le> x" using lo by simp
  then have s: "2 ^ 52 \<le> x * 2 ^ m" by (simp add: field_simps)
  from assms(1) have "round_double x = real_of_int (round_half_even (x * 2 ^ m)) / 2 ^ m"
    by (simp add: round_double_def ex u)
  with s show ?thesis by blast
qed

lemma quotient_rounds_within:
  assumes a: "0 < a" "a < 2 ^ 53" and b: "0 < b"
  shows "real_of_int (a div b) \<le> round_double (real_of_int a / real_of_int b)"
    and "round_double (real_of_int a / real_of_int b) < real_of_int (a div b) + 1"
proof -
  let ?x = "real_of_int a / real_of_int b"
  let ?k = "a div b"
  from a b have x0: "0 < ?x" by simp
  from a b have "?x \<le> real_of_int a"
    by (simp add: field_simps mult_le_cancel_left1)
  also from a have "real_of_int a < 2 ^ 53" by (metis of_int_less_numeral_power_cancel_iff)
  finally have x53: "?x < 2 ^ 53" .
  from round_double_scaled [OF x0 x53] obtain m where
    r: "round_double ?x = real_of_int (round_half_even (?x * 2 ^ m)) / 2 ^ m"
    and s: "2 ^ 52 \<le> ?x * 2 ^ m" by blast
  have kx: "real_of_int ?k \<le> ?x"
    using of_int_floor_le [of ?x] by (simp add: floor_divide_of_int_eq)
  then have "real_of_int (?k * 2 ^ m) \<le> ?x * 2 ^ m"
    using mult_right_mono [of "real_of_int ?k" ?x "2 ^ m"] by simp
  then have "?k * 2 ^ m \<le> round_half_even (?x * 2 ^ m)" by (rule rhe_ge_int)
  then have "real_of_int (?k * 2 ^ m) \<le> real_of_int (round_half_even (?x * 2 ^ m))"
    by (simp only: of_int_le_iff)
  then show "real_of_int ?k \<le> round_double ?x"
    unfolding r by (simp add: field_simps)
  have "a < (?k + 1) * b"
    using b by (metis add.commute div_mult_mod_eq add_less_cancel_left distrib_right mult_1 pos_mod_bound mult.commute)
  then have "1 \<le> (?k + 1) * b - a" by simp
  then have "1 \<le> real_of_int ((?k + 1) * b - a)" by (simp only: of_int_1_le_iff)
  then have gap: "1 / real_of_int b \<le> real_of_int (?k + 1) - ?x"
    using b by (simp add: field_simps)
  have half: "1 / 2 < 2 ^ m / real_of_int b"
  proof -
    from s b have "2 ^ 52 * real_of_int b \<le> real_of_int a * 2 ^ m"
      by (simp add: field_simps)
    moreover from a have "real_of_int a < 2 ^ 53"
      by (metis of_int_less_numeral_power_cancel_iff)
    then have "real_of_int a * 2 ^ m < 2 ^ 53 * 2 ^ m" by simp
    ultimately have "2 ^ 52 * real_of_int b < 2 ^ 53 * 2 ^ m" by linarith
    then have "real_of_int b < 2 * 2 ^ m" by simp
    with b show ?thesis by (simp add: field_simps)
  qed
  from gap have "2 ^ m / real_of_int b \<le> (real_of_int (?k + 1) - ?x) * 2 ^ m"
    using mult_right_mono [of "1 / real_of_int b" "real_of_int (?k + 1) - ?x" "2 ^ m"] by simp
  with half have "?x * 2 ^ m < real_of_int ((?k + 1) * 2 ^ m) - 1 / 2"
    by (simp add: algebra_simps)
  then have "round_half_even (?x * 2 ^ m) \<le> (?k + 1) * 2 ^ m - 1" by (rule rhe_lt_int)
  then have "real_of_int (round_half_even (?x * 2 ^ m)) \<le> real_of_int ((?k + 1) * 2 ^ m - 1)"
    by (simp only: of_int_le_iff)
  then have "round_double ?x \<le> (real_of_int (?k + 1) * 2 ^ m - 1) / 2 ^ m"
    unfolding r by (simp add: divide_right_mono)
  also have "\<dots> < real_of_int ?k + 1"
    by (simp add: field_simps)
  finally show "round_double ?x < real_of_int ?k + 1" .
qed

lemma py_int_round_double:
  assumes "0 \<le> a" "a < 2 ^ 53" "0 < b"
  shows "py_int (round_double (real_of_int a / real_of_int b)) = a div b"
proof (cases "a = 0")
  case True
  then show ?thesis by (simp add: round_double_def py_int_def)
next
  case False
  with assms have a: "0 < a" by simp
  note w = quotient_rounds_within [OF a assms(2) assms(3)]
  from a assms(3) have "0 \<le> a div b" by (simp add: pos_imp_zdiv_nonneg_iff)
  with w(1) have "0 \<le> round_double (real_of_int a / real_of_int b)" by linarith
  moreover from w have "\<lfloor>round_double (real_of_int a / real_of_int b)\<rfloor> = a div b"
    by (intro floor_unique) simp_all
  ultimately show ?thesis by (simp add: py_int_def)
qed






lemma sampler_items_double:
  assumes "2 \<le> F"
  shows "comprehension
           (\<lambda>i. pybind (truediv_double (i * (T - 1)) (F - 1)) (\<lambda>q. Inr (py_int q)))
           (py_range (F - 1))
         = Inr (map (\<lambda>i. py_int (round_double (real_of_int (i * (T - 1)) / real_of_int (F - 1))))
                  [0..F - 2])"
proof -
  from assms have F: "F - 1 \<noteq> 0" by simp
  have "comprehension
           (\<lambda>i. pybind (truediv_double (i * (T - 1)) (F - 1)) (\<lambda>q. Inr (py_int q)))
           [0..F - 2]
         = Inr (map (\<lambda>i. py_int (round_double (real_of_int (i * (T - 1)) / real_of_int (F - 1))))
                  [0..F - 2])"
    by (rule comprehension_total) (simp add: truediv_double_def F)
  moreover have "py_range (F - 1) = [0..F - 2]"
    by (simp add: py_range_def)
  ultimately show ?thesis by simp
qed

lemma save_frame_double_raw:
  assumes "2 \<le> F"
  shows "save_frame_2D_double T F
         = Inr (map (\<lambda>i. py_int (round_double (real_of_int (i * (T - 1)) / real_of_int (F - 1))))
                  [0..F - 2] @ [T - 1])"
    and "save_frame_3D_double T F
         = Inr (map (\<lambda>i. py_int (round_double (real_of_int (i * (T - 1)) / real_of_int (F - 1))))
                  [0..F - 2] @ [T - 1])"
  by (simp_all add: save_frame_2D_double_def save_frame_3D_double_def
      sampler_items_double [OF assms])

lemma rounded_items_exact:
  assumes "1 \<le> T" "2 \<le> F" "(F - 2) * (T - 1) < 2 ^ 53"
  shows "map (\<lambda>i. py_int (round_double (real_of_int (i * (T - 1)) / real_of_int (F - 1))))
           [0..F - 2]
         = map (\<lambda>i. (i * (T - 1)) div (F - 1)) [0..F - 2]"
proof (rule map_cong [OF refl])
  fix i assume "i \<in> set [0..F - 2]"
  then have i: "0 \<le> i" "i \<le> F - 2" by simp_all
  from i assms(1) have a0: "0 \<le> i * (T - 1)" by simp
  from i assms(1) have "i * (T - 1) \<le> (F - 2) * (T - 1)"
    by (intro mult_right_mono) simp_all
  with assms(3) have a53: "i * (T - 1) < 2 ^ 53" by linarith
  from assms(2) have "0 < F - 1" by simp
  with a0 a53
  show "py_int (round_double (real_of_int (i * (T - 1)) / real_of_int (F - 1)))
        = (i * (T - 1)) div (F - 1)"
    by (rule py_int_round_double)
qed

lemma save_frame_double_plan:
  assumes "1 \<le> T" "2 \<le> F" "(F - 2) * (T - 1) < 2 ^ 53"
  shows "save_frame_2D_double T F = Inr (sample_plan_spec T F)"
    and "save_frame_3D_double T F = Inr (sample_plan_spec T F)"
  by (simp_all only: save_frame_double_raw [OF assms(2)] rounded_items_exact [OF assms]
      sample_plan_spec_def)

lemma sampler_double_agrees:
  assumes "1 \<le> T" "(F - 2) * (T - 1) < 2 ^ 53"
  shows "save_frame_2D_double T F = save_frame_2D T F"
    and "save_frame_3D_double T F = save_frame_3D T F"
proof -
  have "save_frame_2D_double T F = save_frame_2D T F \<and> save_frame_3D_double T F = save_frame_3D T F"
  proof (cases "2 \<le> F")
    case True
    with assms show ?thesis
      by (simp add: save_frame_double_plan save_frame_2D_plan save_frame_3D_plan)
  next
    case False
    then have "py_range (F - 1) = []" by (simp add: py_range_def)
    then show ?thesis
      by (simp add: save_frame_2D_double_def save_frame_3D_double_def save_frame_2D_def
          save_frame_3D_def)
  qed
  then show "save_frame_2D_double T F = save_frame_2D T F"
    and "save_frame_3D_double T F = save_frame_3D T F" by simp_all
qed



section \<open>The claims\<close>





text \<open>
  Claim C2, as amended. With \<^verbatim>\<open>num_frames = 1\<close>, on a dataset of at least one timestep with
  as many position arrays as times and at least two columns per particle, neither
  pipeline raises: the comprehension of the sampler runs over \<^verbatim>\<open>range(0)\<close>, so the division
  by \<open>num_frames - 1 = 0\<close> is never evaluated, and the plan is the single index of the last
  timestep. The pipeline saves one frame file, reads it back and writes an animation of
  that one frame with duration 3.
\<close>

theorem C2_one_frame:
  assumes "dataset_ok sim d"
  shows "save_frame_2D (int (length (fst (load_data sim d)))) 1
           = Inr [int (length (fst (load_data sim d))) - 1]
       \<and> save_frame_3D (int (length (fst (load_data sim d)))) 1
           = Inr [int (length (fst (load_data sim d))) - 1]
       \<and> (\<exists>w'. GIF_2D sim g d 1 L w = Inr w'
              \<and> io_trace w' = io_trace (ensure_tmp_plot w)
                  @ [Savefig (frame_name_2D 0), Imread (frame_name_2D 0), Write_gif g]
              \<and> gif_files w' g
                  = Some \<lparr>duration = 3,
                          frames = [frame_image_2D sim d L
                                      (int (length (fst (load_data sim d))) - 1)]\<rparr>)
       \<and> (\<exists>w'. GIF_3D sim g d 1 L w = Inr w'
              \<and> io_trace w' = io_trace (ensure_tmp_plot w)
                  @ [Savefig (frame_name_3D 0), Imread (frame_name_3D 0), Write_gif g]
              \<and> gif_files w' g
                  = Some \<lparr>duration = 3,
                          frames = [frame_image_3D sim d L
                                      (int (length (fst (load_data sim d))) - 1)]\<rparr>)"
proof -
  have one: "(1 :: int) \<noteq> 0" by simp
  from GIF_2D_run [OF assms one, where g = g and L = L and w = w]
  have two: "\<exists>w'. GIF_2D sim g d 1 L w = Inr w'
              \<and> io_trace w' = io_trace (ensure_tmp_plot w)
                  @ [Savefig (frame_name_2D 0), Imread (frame_name_2D 0), Write_gif g]
              \<and> gif_files w' g
                  = Some \<lparr>duration = 3,
                          frames = [frame_image_2D sim d L
                                      (int (length (fst (load_data sim d))) - 1)]\<rparr>"
    by (auto simp: plan_one)
  from GIF_3D_run [OF assms one, where g = g and L = L and w = w]
  have three: "\<exists>w'. GIF_3D sim g d 1 L w = Inr w'
              \<and> io_trace w' = io_trace (ensure_tmp_plot w)
                  @ [Savefig (frame_name_3D 0), Imread (frame_name_3D 0), Write_gif g]
              \<and> gif_files w' g
                  = Some \<lparr>duration = 3,
                          frames = [frame_image_3D sim d L
                                      (int (length (fst (load_data sim d))) - 1)]\<rparr>"
    by (auto simp: plan_one)
  from two three show ?thesis
    by (simp only: save_frame_one)
qed

theorem C2_one_frame_witness:
  "dataset_ok demo_sim ''run.csv''
   \<and> save_frame_2D 3 1 = Inr [2]
   \<and> (\<exists>w'. GIF_2D demo_sim ''out.gif'' ''run.csv'' 1 10 empty_world = Inr w'
          \<and> io_trace w' = [Mkdir ''tmp-plot'', Savefig ''tmp-plot/pair_int_2D00000.png'',
                            Imread ''tmp-plot/pair_int_2D00000.png'', Write_gif ''out.gif''])"
proof -
  have t: "int (length (fst (load_data demo_sim ''run.csv''))) = 3"
    by (simp add: demo_sim_def)
  from C2_one_frame [OF demo_ok, where d = "''run.csv''" and g = "''out.gif''" and L = 10
      and w = empty_world]
  have "save_frame_2D 3 1 = Inr [2]"
    and "\<exists>w'. GIF_2D demo_sim ''out.gif'' ''run.csv'' 1 10 empty_world = Inr w'
          \<and> io_trace w' = [Mkdir ''tmp-plot'', Savefig ''tmp-plot/pair_int_2D00000.png'',
                            Imread ''tmp-plot/pair_int_2D00000.png'', Write_gif ''out.gif'']"
    unfolding t by (simp_all add: ensure_empty frame_name_examples) blast
  with demo_ok show ?thesis by blast
qed

text \<open>The claim as stated fails: on three timesteps and \<^verbatim>\<open>num_frames = 1\<close> the sampler
  returns the plan \<open>[2]\<close> and both pipelines run to their end, one frame saved and read.\<close>

theorem C2_no_error_counterexample:
  "save_frame_2D 3 1 = Inr [2]
   \<and> save_frame_3D 3 1 = Inr [2]
   \<and> (case GIF_2D demo_sim ''out.gif'' ''run.csv'' 1 10 empty_world of
        Inl e \<Rightarrow> False
      | Inr w' \<Rightarrow> io_trace w' = [Mkdir ''tmp-plot'', Savefig ''tmp-plot/pair_int_2D00000.png'',
                                  Imread ''tmp-plot/pair_int_2D00000.png'', Write_gif ''out.gif''])
   \<and> (case GIF_3D demo_sim ''out.gif'' ''run.csv'' 1 10 empty_world of
        Inl e \<Rightarrow> False
      | Inr w' \<Rightarrow> io_trace w' = [Mkdir ''tmp-plot'', Savefig ''tmp-plot/pair_int_3D00000.png'',
                                  Imread ''tmp-plot/pair_int_3D00000.png'', Write_gif ''out.gif''])"
proof -
  have one: "(1 :: int) \<noteq> 0" by simp
  have n2: "frame_name_2D 0 = ''tmp-plot/pair_int_2D00000.png''"
    by (simp add: frame_name_2D_def format_05d_small digit_char_def)
  have n3: "frame_name_3D 0 = ''tmp-plot/pair_int_3D00000.png''"
    by (simp add: frame_name_3D_def format_05d_small digit_char_def)
  from GIF_2D_run [OF demo_ok one, where d = "''run.csv''" and g = "''out.gif''" and L = 10
      and w = empty_world]
  obtain w2 where "GIF_2D demo_sim ''out.gif'' ''run.csv'' 1 10 empty_world = Inr w2"
    "io_trace w2 = [Mkdir ''tmp-plot'', Savefig ''tmp-plot/pair_int_2D00000.png'',
                    Imread ''tmp-plot/pair_int_2D00000.png'', Write_gif ''out.gif'']"
    by (auto simp: plan_one ensure_empty n2)
  moreover
  from GIF_3D_run [OF demo_ok one, where d = "''run.csv''" and g = "''out.gif''" and L = 10
      and w = empty_world]
  obtain w3 where "GIF_3D demo_sim ''out.gif'' ''run.csv'' 1 10 empty_world = Inr w3"
    "io_trace w3 = [Mkdir ''tmp-plot'', Savefig ''tmp-plot/pair_int_3D00000.png'',
                    Imread ''tmp-plot/pair_int_3D00000.png'', Write_gif ''out.gif'']"
    by (auto simp: plan_one ensure_empty n3)
  ultimately show ?thesis
    using save_frame_one [of 3] by simp
qed

text \<open>
  Claim C3, at a failing input. One particle at \<open>(1, 2, 3)\<close> in a box of length 10 is rendered
  by \<^verbatim>\<open>plot_pos_3D\<close> with \<^verbatim>\<open>outer_boxes=True\<close>. With \<^verbatim>\<open>central_box=False\<close> the 27 image
  positions are the particle moved by every combination of \<open>-10\<close>, \<open>0\<close> and \<open>10\<close>, but the
  axis limits on exit are \<open>[0, 10]\<close> on all three axes and not \<open>[-10, 20]\<close>: lines 248 to
  250 overwrite what lines 244 to 246 set. With \<^verbatim>\<open>central_box=True\<close> the limits are the same
  and the first image is drawn at \<open>(1, 2, 0)\<close>, not at the particle: line 205 passes no third
  coordinate.
\<close>

theorem C3_limits_overwritten:
  "(case plot_pos_3D no_pair_lines (add_subplot Projection3D) [[1, 2, 3]] 10 False False True of
      Inl e \<Rightarrow> False
    | Inr ax \<Rightarrow> xlim ax = Some (0, 10) \<and> ylim ax = Some (0, 10) \<and> zlim ax = Some (0, 10)
               \<and> xlim ax \<noteq> Some (- 10, 20)
               \<and> mset (points_3D (artists ax))
                   = mset (map (\<lambda>d. (1 + fst d, 2 + fst (snd d), 3 + snd (snd d)))
                            (replica_offsets_3D 10)))
   \<and> (case plot_pos_3D no_pair_lines (add_subplot Projection3D) [[1, 2, 3]] 10 True False True of
      Inl e \<Rightarrow> False
    | Inr ax \<Rightarrow> xlim ax = Some (0, 10) \<and> hd (points_3D (artists ax)) = (1, 2, 0))"
proof -
  have h: "min_columns (if b \<and> \<not> True \<and> \<not> False then 2 else 3) [[1, 2, 3 :: real]]" for b
    by (simp add: min_columns_def)
  from plot_pos_3D_artists [where pos = "[[1, 2, 3]]" and rp = False and ob = True
      and ad = no_pair_lines and L = 10 and ax = "add_subplot Projection3D" and cb = False] h
  obtain ax1 where
    r1: "plot_pos_3D no_pair_lines (add_subplot Projection3D) [[1, 2, 3]] 10 False False True = Inr ax1"
    and a1: "artists ax1 = artists (add_subplot Projection3D)
               @ concat (map (images_3D 10 False True) [[1, 2, 3]])"
    by auto
  from plot_pos_3D_artists [where pos = "[[1, 2, 3]]" and rp = False and ob = True
      and ad = no_pair_lines and L = 10 and ax = "add_subplot Projection3D" and cb = True] h
  obtain ax2 where
    r2: "plot_pos_3D no_pair_lines (add_subplot Projection3D) [[1, 2, 3]] 10 True False True = Inr ax2"
    and a2: "artists ax2 = artists (add_subplot Projection3D)
               @ concat (map (images_3D 10 True True) [[1, 2, 3]]) @ cube_outline 10"
    by auto
  from a1 have "points_3D (artists ax1)
      = map (\<lambda>d. (1 + fst d, 2 + fst (snd d), 3 + snd (snd d))) ((0, 0, 0) # neighbour_offsets_3D 10)"
    using points_3D_images [of 10 "[1, 2, 3]"] by (simp add: add_subplot_def)
  then have m1: "mset (points_3D (artists ax1))
      = mset (map (\<lambda>d. (1 + fst d, 2 + fst (snd d), 3 + snd (snd d))) (replica_offsets_3D 10))"
    by (simp only: mset_map neighbour_offsets_3D_complete)
  from a2 have p2: "hd (points_3D (artists ax2)) = (1, 2, 0)"
    by (simp add: add_subplot_def images_3D_def)
  from plot_pos_3D_exit(2) [OF r1] plot_pos_3D_exit(2) [OF r2] r1 r2 m1 p2
  show ?thesis by simp
qed

text \<open>
  Claim C4, as amended. On positions with at least two columns \<^verbatim>\<open>plot_pos_2D\<close> raises
  nothing and draws, whatever \<^verbatim>\<open>central_box\<close> is, nine image positions per particle: the
  particle moved by each of the nine offsets, the zero offset first, which are all the
  combinations of \<open>- L\<close>, \<open>0\<close> and \<open>L\<close> on the two axes. The eight moved images are red
  points; the true position is a red point, and with \<^verbatim>\<open>central_box=True\<close> a black point
  instead. After the particles \<^verbatim>\<open>central_box=True\<close> adds the green outline of the central
  square, and nothing else is drawn but the pair lines when they are asked for. (Then the
  array of displacements must have its shape.)
\<close>

theorem C4_nine_images_2D:
  assumes "min_columns 2 pos"
    and "relative_pos \<longrightarrow> rel_shape (length pos) 2 (fst (ad pos L))"
  shows "\<exists>ax'. plot_pos_2D ad ax pos L central_box relative_pos = Inr ax'
           \<and> artists ax'
               = artists ax
                 @ concat (map (\<lambda>row.
                      (if central_box then Plot2D [row ! 0] [row ! 1] ''.'' (Some ''black'')
                       else Plot2D [row ! 0] [row ! 1] ''r.'' None)
                      # map (\<lambda>d. Plot2D [row ! 0 + fst d] [row ! 1 + snd d] ''r.'' None)
                          (neighbour_offsets_2D L)) pos)
                 @ (if central_box then [Plot2D [0, 0, L, L, 0] [0, L, L, 0, 0] ''g-'' None]
                    else [])
                 @ (if relative_pos
                    then map (segment_2D pos (fst (ad pos L))) (ordered_pairs (length pos))
                    else [])
           \<and> points_2D (artists ax')
               = points_2D (artists ax)
                 @ concat (map (\<lambda>row. map (\<lambda>d. (row ! 0 + fst d, row ! 1 + snd d))
                                        ((0, 0) # neighbour_offsets_2D L)) pos)
           \<and> length (points_2D (artists ax')) = length (points_2D (artists ax)) + 9 * length pos
           \<and> mset ((0, 0) # neighbour_offsets_2D L) = mset (replica_offsets_2D L)"
proof -
  from assms
  have "\<exists>ax'. plot_pos_2D ad ax pos L central_box relative_pos = Inr ax'
           \<and> artists ax' = artists ax @ concat (map (images_2D L central_box) pos)
               @ (if central_box then [Plot2D [0, 0, L, L, 0] [0, L, L, 0, 0] ''g-'' None] else [])
               @ (if relative_pos
                  then map (segment_2D pos (fst (ad pos L))) (ordered_pairs (length pos))
                  else [])"
    by (intro plot_pos_2D_artists) simp_all
  then obtain ax' where ax': "plot_pos_2D ad ax pos L central_box relative_pos = Inr ax'"
    and a: "artists ax' = artists ax @ concat (map (images_2D L central_box) pos)
               @ (if central_box then [Plot2D [0, 0, L, L, 0] [0, L, L, 0, 0] ''g-'' None] else [])
               @ (if relative_pos
                  then map (segment_2D pos (fst (ad pos L))) (ordered_pairs (length pos))
                  else [])"
    by blast
  have full: "artists ax'
               = artists ax
                 @ concat (map (\<lambda>row.
                      (if central_box then Plot2D [row ! 0] [row ! 1] ''.'' (Some ''black'')
                       else Plot2D [row ! 0] [row ! 1] ''r.'' None)
                      # map (\<lambda>d. Plot2D [row ! 0 + fst d] [row ! 1 + snd d] ''r.'' None)
                          (neighbour_offsets_2D L)) pos)
                 @ (if central_box then [Plot2D [0, 0, L, L, 0] [0, L, L, 0, 0] ''g-'' None]
                    else [])
                 @ (if relative_pos
                    then map (segment_2D pos (fst (ad pos L))) (ordered_pairs (length pos))
                    else [])"
    unfolding a by (simp only: images_2D_def [abs_def])
  have p: "points_2D (artists ax')
           = points_2D (artists ax)
             @ concat (map (\<lambda>row. map (\<lambda>d. (row ! 0 + fst d, row ! 1 + snd d))
                                    ((0, 0) # neighbour_offsets_2D L)) pos)"
    unfolding a
    by (simp add: points_2D_append points_2D_concat comp_def points_2D_images
        points_2D_segments del: list.map)
  have "length (points_2D (artists ax')) = length (points_2D (artists ax)) + 9 * length pos"
    unfolding p
    by (simp add: length_concat comp_def neighbour_offsets_2D_def sum_list_triv)
  with ax' full p neighbour_offsets_2D_complete show ?thesis by blast
qed

theorem C4_nine_images_2D_witness:
  "min_columns 2 [[0, 0 :: real]]
   \<and> (\<exists>ax'. plot_pos_2D no_pair_lines (add_subplot Rectilinear) [[0, 0]] 10 True False = Inr ax'
          \<and> artists ax'
              = [Plot2D [0] [0] ''.'' (Some ''black''),
                 Plot2D [10] [0] ''r.'' None, Plot2D [0] [10] ''r.'' None,
                 Plot2D [10] [10] ''r.'' None, Plot2D [- 10] [0] ''r.'' None,
                 Plot2D [0] [- 10] ''r.'' None, Plot2D [- 10] [- 10] ''r.'' None,
                 Plot2D [- 10] [10] ''r.'' None, Plot2D [10] [- 10] ''r.'' None,
                 Plot2D [0, 0, 10, 10, 0] [0, 10, 10, 0, 0] ''g-'' None]
          \<and> points_2D (artists ax')
              = [(0, 0), (10, 0), (0, 10), (10, 10), (- 10, 0), (0, - 10), (- 10, - 10),
                 (- 10, 10), (10, - 10)])
   \<and> (\<exists>ax'. plot_pos_2D no_pair_lines (add_subplot Rectilinear) [[0, 0]] 10 False False = Inr ax'
          \<and> artists ax'
              = [Plot2D [0] [0] ''r.'' None,
                 Plot2D [10] [0] ''r.'' None, Plot2D [0] [10] ''r.'' None,
                 Plot2D [10] [10] ''r.'' None, Plot2D [- 10] [0] ''r.'' None,
                 Plot2D [0] [- 10] ''r.'' None, Plot2D [- 10] [- 10] ''r.'' None,
                 Plot2D [- 10] [10] ''r.'' None, Plot2D [10] [- 10] ''r.'' None])"
proof -
  have h: "min_columns 2 [[0, 0 :: real]]" by (simp add: min_columns_def)
  have h2: "False \<longrightarrow> rel_shape (length [[0, 0 :: real]]) 2 (fst (no_pair_lines [[0, 0]] 10))"
    by simp
  from C4_nine_images_2D [where pos = "[[0, 0]]" and relative_pos = False
      and ad = no_pair_lines and L = 10 and ax = "add_subplot Rectilinear" and central_box = True]
    h h2
  obtain ax1 where
    r1: "plot_pos_2D no_pair_lines (add_subplot Rectilinear) [[0, 0]] 10 True False = Inr ax1"
    and a1: "artists ax1
         = artists (add_subplot Rectilinear)
           @ concat (map (\<lambda>row.
                (if True then Plot2D [row ! 0] [row ! 1] ''.'' (Some ''black'')
                 else Plot2D [row ! 0] [row ! 1] ''r.'' None)
                # map (\<lambda>d. Plot2D [row ! 0 + fst d] [row ! 1 + snd d] ''r.'' None)
                    (neighbour_offsets_2D 10)) [[0, 0]])
           @ (if True then [Plot2D [0, 0, 10, 10, 0] [0, 10, 10, 0, 0] ''g-'' None] else [])
           @ (if False
              then map (segment_2D [[0, 0]] (fst (no_pair_lines [[0, 0]] 10)))
                     (ordered_pairs (length [[0, 0 :: real]]))
              else [])"
    and p1: "points_2D (artists ax1)
         = points_2D (artists (add_subplot Rectilinear))
           @ concat (map (\<lambda>row. map (\<lambda>d. (row ! 0 + fst d, row ! 1 + snd d))
                                  ((0, 0) # neighbour_offsets_2D 10)) [[0, 0]])"
    by blast
  from C4_nine_images_2D [where pos = "[[0, 0]]" and relative_pos = False
      and ad = no_pair_lines and L = 10 and ax = "add_subplot Rectilinear" and central_box = False]
    h h2
  obtain ax2 where
    r2: "plot_pos_2D no_pair_lines (add_subplot Rectilinear) [[0, 0]] 10 False False = Inr ax2"
    and a2: "artists ax2
         = artists (add_subplot Rectilinear)
           @ concat (map (\<lambda>row.
                (if False then Plot2D [row ! 0] [row ! 1] ''.'' (Some ''black'')
                 else Plot2D [row ! 0] [row ! 1] ''r.'' None)
                # map (\<lambda>d. Plot2D [row ! 0 + fst d] [row ! 1 + snd d] ''r.'' None)
                    (neighbour_offsets_2D 10)) [[0, 0]])
           @ (if False then [Plot2D [0, 0, 10, 10, 0] [0, 10, 10, 0, 0] ''g-'' None] else [])
           @ (if False
              then map (segment_2D [[0, 0]] (fst (no_pair_lines [[0, 0]] 10)))
                     (ordered_pairs (length [[0, 0 :: real]]))
              else [])"
    by blast
  from a1 have e1: "artists ax1
              = [Plot2D [0] [0] ''.'' (Some ''black''),
                 Plot2D [10] [0] ''r.'' None, Plot2D [0] [10] ''r.'' None,
                 Plot2D [10] [10] ''r.'' None, Plot2D [- 10] [0] ''r.'' None,
                 Plot2D [0] [- 10] ''r.'' None, Plot2D [- 10] [- 10] ''r.'' None,
                 Plot2D [- 10] [10] ''r.'' None, Plot2D [10] [- 10] ''r.'' None,
                 Plot2D [0, 0, 10, 10, 0] [0, 10, 10, 0, 0] ''g-'' None]"
    by (simp add: neighbour_offsets_2D_def add_subplot_def)
  from p1 have e2: "points_2D (artists ax1)
             = [(0, 0), (10, 0), (0, 10), (10, 10), (- 10, 0), (0, - 10), (- 10, - 10),
                (- 10, 10), (10, - 10)]"
    by (simp add: neighbour_offsets_2D_def add_subplot_def)
  from a2 have e3: "artists ax2
              = [Plot2D [0] [0] ''r.'' None,
                 Plot2D [10] [0] ''r.'' None, Plot2D [0] [10] ''r.'' None,
                 Plot2D [10] [10] ''r.'' None, Plot2D [- 10] [0] ''r.'' None,
                 Plot2D [0] [- 10] ''r.'' None, Plot2D [- 10] [- 10] ''r.'' None,
                 Plot2D [- 10] [10] ''r.'' None, Plot2D [10] [- 10] ''r.'' None]"
    by (simp add: neighbour_offsets_2D_def add_subplot_def)
  from r1 e1 e2 r2 e3 h show ?thesis by blast
qed

text \<open>The claim as stated fails: with \<^verbatim>\<open>central_box=True\<close> one particle at the corner
  \<open>(0, 0)\<close> of a box of length 10 is drawn nine times, not once.\<close>

theorem C4_central_box_counterexample:
  "(case plot_pos_2D no_pair_lines (add_subplot Rectilinear) [[0, 0]] 10 True False of
      Inl e \<Rightarrow> False
    | Inr ax \<Rightarrow> points_2D (artists ax)
                 = [(0, 0), (10, 0), (0, 10), (10, 10), (- 10, 0), (0, - 10), (- 10, - 10),
                    (- 10, 10), (10, - 10)]
               \<and> length (points_2D (artists ax)) \<noteq> 1)"
proof -
  have h: "min_columns 2 [[0, 0 :: real]]" by (simp add: min_columns_def)
  from plot_pos_2D_artists [where pos = "[[0, 0]]" and rp = False
      and ad = no_pair_lines and L = 10 and ax = "add_subplot Rectilinear" and cb = True] h
  obtain ax' where
    "plot_pos_2D no_pair_lines (add_subplot Rectilinear) [[0, 0]] 10 True False = Inr ax'"
    "artists ax' = artists (add_subplot Rectilinear) @ concat (map (images_2D 10 True) [[0, 0]])
       @ [Plot2D [0, 0, 10, 10, 0] [0, 10, 10, 0, 0] ''g-'' None]"
    by auto
  then show ?thesis
    by (simp add: add_subplot_def images_2D_def neighbour_offsets_2D_def)
qed




text \<open>
  Claim C6, as amended. When the frame file of an expected index \<open>k < n\<close> is absent, the
  assembly loop of either pipeline raises \<^verbatim>\<open>FileNotFoundError\<close>, which is an \<^verbatim>\<open>OSError\<close>, the
  generic I/O failure: the code has no error of its own for a gap. Whenever the
  assembly returns, every one of the \<open>n\<close> expected files was present and the frames of the
  animation are those files in ascending index order, none skipped. (The duration
  \<^verbatim>\<open>3/num_frames\<close> is computed first, so \<open>num_frames\<close> is taken non-zero.)
\<close>

theorem C6_missing_frame:
  assumes "F \<noteq> 0" and "k < n"
  shows "(png_files w (frame_name_2D k) = None
            \<longrightarrow> build_gif_2D g F n w = Inl FileNotFoundError)
       \<and> (png_files w (frame_name_3D k) = None
            \<longrightarrow> build_gif_3D g F n w = Inl FileNotFoundError)
       \<and> is_OSError FileNotFoundError
       \<and> (\<forall>w'. build_gif_2D g F n w = Inr w'
            \<longrightarrow> list_all (\<lambda>f. png_files w (frame_name_2D f) \<noteq> None) [0..<n]
              \<and> gif_files w' g
                  = Some \<lparr>duration = 3 / real_of_int F,
                          frames = map (\<lambda>f. the (png_files w (frame_name_2D f))) [0..<n]\<rparr>)
       \<and> (\<forall>w'. build_gif_3D g F n w = Inr w'
            \<longrightarrow> list_all (\<lambda>f. png_files w (frame_name_3D f) \<noteq> None) [0..<n]
              \<and> gif_files w' g
                  = Some \<lparr>duration = 3 / real_of_int F,
                          frames = map (\<lambda>f. the (png_files w (frame_name_3D f))) [0..<n]\<rparr>)"
proof (intro conjI impI allI)
  assume "png_files w (frame_name_2D k) = None"
  with assms(2) have "\<not> list_all (\<lambda>f. png_files w (frame_name_2D f) \<noteq> None) [0..<n]"
    by (auto simp: list_all_iff)
  with assms(1) show "build_gif_2D g F n w = Inl FileNotFoundError"
    by (simp add: build_gif_2D_result)
next
  assume "png_files w (frame_name_3D k) = None"
  with assms(2) have "\<not> list_all (\<lambda>f. png_files w (frame_name_3D f) \<noteq> None) [0..<n]"
    by (auto simp: list_all_iff)
  with assms(1) show "build_gif_3D g F n w = Inl FileNotFoundError"
    by (simp add: build_gif_3D_result)
next
  show "is_OSError FileNotFoundError" by simp
next
  fix w' assume r: "build_gif_2D g F n w = Inr w'"
  then show "list_all (\<lambda>f. png_files w (frame_name_2D f) \<noteq> None) [0..<n]"
    using assms(1) by (simp add: build_gif_2D_result split: if_splits)
  with r assms(1)
  show "gif_files w' g
        = Some \<lparr>duration = 3 / real_of_int F,
                frames = map (\<lambda>f. the (png_files w (frame_name_2D f))) [0..<n]\<rparr>"
    by (auto simp: build_gif_2D_result close_writer_def)
next
  fix w' assume r: "build_gif_3D g F n w = Inr w'"
  then show "list_all (\<lambda>f. png_files w (frame_name_3D f) \<noteq> None) [0..<n]"
    using assms(1) by (simp add: build_gif_3D_result split: if_splits)
  with r assms(1)
  show "gif_files w' g
        = Some \<lparr>duration = 3 / real_of_int F,
                frames = map (\<lambda>f. the (png_files w (frame_name_3D f))) [0..<n]\<rparr>"
    by (auto simp: build_gif_3D_result close_writer_def)
qed

theorem C6_missing_frame_witness:
  "(5 :: int) \<noteq> 0 \<and> (2 :: nat) < 5 \<and> png_files gap_world (frame_name_2D 2) = None
   \<and> build_gif_2D ''out.gif'' 5 5 gap_world = Inl FileNotFoundError"
proof -
  have h: "(5 :: int) \<noteq> 0" "(2 :: nat) < 5" by simp_all
  from C6_missing_frame [OF h, where w = gap_world and g = "''out.gif''"] h gap_world_frame_2
  show ?thesis by simp
qed

text \<open>The claim as stated fails: with frame 2 of 5 missing the assembly loop raises
  \<^verbatim>\<open>FileNotFoundError\<close>, an \<^verbatim>\<open>OSError\<close>, the same error that reading any other absent file
  raises.\<close>

theorem C6_generic_error_counterexample:
  "build_gif_2D ''out.gif'' 5 5 gap_world = Inl FileNotFoundError
   \<and> is_OSError FileNotFoundError
   \<and> (case imread ''tmp-plot/other.png'' gap_world of
        Inl e \<Rightarrow> e = FileNotFoundError
      | Inr r \<Rightarrow> False)"
proof -
  have "\<not> list_all (\<lambda>f. png_files gap_world (frame_name_2D f) \<noteq> None) [0..<5]"
    using gap_world_frame_2 by (auto simp: list_all_iff)
  then have "build_gif_2D ''out.gif'' 5 5 gap_world = Inl FileNotFoundError"
    by (simp add: build_gif_2D_result)
  then show ?thesis
    by (simp add: imread_def gap_world_other)
qed

text \<open>
  Claim C7. On a dataset as above and \<open>F \<ge> 2\<close> frames either pipeline writes an animation of
  \<open>F\<close> frames with the one display duration \<open>3 / F\<close>; for \<open>F = 10\<close> that is \<open>3 / 10\<close>.
\<close>

theorem C7_frame_duration:
  assumes "dataset_ok sim d" and "2 \<le> F"
  shows "\<exists>w2 w3 a2 a3.
           GIF_2D sim g d F L w = Inr w2 \<and> gif_files w2 g = Some a2
         \<and> GIF_3D sim g d F L w = Inr w3 \<and> gif_files w3 g = Some a3
         \<and> duration a2 = 3 / real_of_int F \<and> duration a3 = 3 / real_of_int F
         \<and> length (frames a2) = nat F \<and> length (frames a3) = nat F"
proof -
  from assms(2) have F: "F \<noteq> 0" and one: "1 \<le> F" by simp_all
  have len: "length (sample_plan_spec (int (length (fst (load_data sim d)))) F) = nat F"
    using one by (rule plan_length)
  from GIF_2D_run [OF assms(1) F, where g = g and L = L and w = w]
  obtain w2 where w2: "GIF_2D sim g d F L w = Inr w2"
    "gif_files w2 g
       = Some \<lparr>duration = 3 / real_of_int F,
               frames = map (frame_image_2D sim d L)
                          (sample_plan_spec (int (length (fst (load_data sim d)))) F)\<rparr>"
    by blast
  from GIF_3D_run [OF assms(1) F, where g = g and L = L and w = w]
  obtain w3 where w3: "GIF_3D sim g d F L w = Inr w3"
    "gif_files w3 g
       = Some \<lparr>duration = 3 / real_of_int F,
               frames = map (frame_image_3D sim d L)
                          (sample_plan_spec (int (length (fst (load_data sim d)))) F)\<rparr>"
    by blast
  show ?thesis
    by (intro exI conjI, rule w2(1), rule w2(2), rule w3(1), rule w3(2)) (simp_all add: len)
qed

theorem C7_frame_duration_witness:
  "dataset_ok demo_sim ''run.csv'' \<and> (2 :: int) \<le> 10
   \<and> (\<exists>w2 a2. GIF_2D demo_sim ''out.gif'' ''run.csv'' 10 10 empty_world = Inr w2
          \<and> gif_files w2 ''out.gif'' = Some a2 \<and> duration a2 = 3 / 10
          \<and> length (frames a2) = 10)"
proof -
  have ten: "(2 :: int) \<le> 10" by simp
  from C7_frame_duration [OF demo_ok ten, where d = "''run.csv''" and g = "''out.gif''"
      and L = 10 and w = empty_world]
  obtain w2 a2 where "GIF_2D demo_sim ''out.gif'' ''run.csv'' 10 10 empty_world = Inr w2"
    "gif_files w2 ''out.gif'' = Some a2" "duration a2 = 3 / real_of_int 10"
    "length (frames a2) = nat 10"
    by blast
  then have "\<exists>w2 a2. GIF_2D demo_sim ''out.gif'' ''run.csv'' 10 10 empty_world = Inr w2
          \<and> gif_files w2 ''out.gif'' = Some a2 \<and> duration a2 = 3 / 10
          \<and> length (frames a2) = 10"
    by simp
  with demo_ok ten show ?thesis by blast
qed

text \<open>
  Claim C8, as amended. The renderers check no shape; with pair lines off, on a non-empty
  array of \<open>d\<close> columns, \<^verbatim>\<open>plot_pos_2D\<close> raises \<^verbatim>\<open>IndexError\<close> when \<open>d < 2\<close> and, when
  \<open>d \<ge> 2\<close>, three columns included, renders every particle from its first two columns.
  \<^verbatim>\<open>plot_pos_3D\<close> raises \<^verbatim>\<open>IndexError\<close> when \<open>d < 2\<close>, and when \<open>d = 2\<close> with
  \<^verbatim>\<open>central_box=False\<close> or \<^verbatim>\<open>outer_boxes=True\<close>; it renders when \<open>d \<ge> 3\<close>.
\<close>

theorem C8_missing_column:
  assumes "pos \<noteq> []" and "has_columns d pos"
  shows "(d < 2 \<longrightarrow> plot_pos_2D ad ax pos L cb False = Inl IndexError)
       \<and> (2 \<le> d \<longrightarrow>
            (\<exists>ax'. plot_pos_2D ad ax pos L cb False = Inr ax'
               \<and> points_2D (artists ax')
                   = points_2D (artists ax)
                     @ concat (map (\<lambda>row. map (\<lambda>off. (row ! 0 + fst off, row ! 1 + snd off))
                                            ((0, 0) # neighbour_offsets_2D L)) pos)))
       \<and> (d < 2 \<or> (d = 2 \<and> (\<not> cb \<or> ob))
            \<longrightarrow> plot_pos_3D ad ax pos L cb False ob = Inl IndexError)
       \<and> (3 \<le> d \<longrightarrow> (\<exists>ax'. plot_pos_3D ad ax pos L cb False ob = Inr ax'))"
proof (intro conjI impI)
  note first = has_columns_first [OF assms(2) assms(1)]
  show "plot_pos_2D ad ax pos L cb False = Inl IndexError" if "d < 2"
    using that first by (intro plot_pos_2D_raises assms(1)) simp
  show "\<exists>ax'. plot_pos_2D ad ax pos L cb False = Inr ax'
               \<and> points_2D (artists ax')
                   = points_2D (artists ax)
                     @ concat (map (\<lambda>row. map (\<lambda>off. (row ! 0 + fst off, row ! 1 + snd off))
                                            ((0, 0) # neighbour_offsets_2D L)) pos)"
    if "2 \<le> d"
  proof -
    from plot_pos_2D_artists [where pos = pos and rp = False and ad = ad and L = L and ax = ax
        and cb = cb] has_columns_min [OF assms(2) that]
    obtain ax' where r: "plot_pos_2D ad ax pos L cb False = Inr ax'"
      and a: "artists ax' = artists ax @ concat (map (images_2D L cb) pos)
                @ (if cb then [Plot2D [0, 0, L, L, 0] [0, L, L, 0, 0] ''g-'' None] else [])"
      by auto
    have "points_2D (artists ax')
          = points_2D (artists ax)
            @ concat (map (\<lambda>row. map (\<lambda>off. (row ! 0 + fst off, row ! 1 + snd off))
                                   ((0, 0) # neighbour_offsets_2D L)) pos)"
      unfolding a
      by (simp add: points_2D_append points_2D_concat comp_def points_2D_images del: list.map)
    with r show ?thesis by blast
  qed
  show "plot_pos_3D ad ax pos L cb False ob = Inl IndexError"
    if "d < 2 \<or> (d = 2 \<and> (\<not> cb \<or> ob))"
    using that first by (intro plot_pos_3D_raises assms(1)) auto
  show "\<exists>ax'. plot_pos_3D ad ax pos L cb False ob = Inr ax'" if c: "3 \<le> d"
  proof -
    from c have "(if cb \<and> \<not> ob \<and> \<not> False then 2 else (3 :: nat)) \<le> d" by auto
    from has_columns_min [OF assms(2) this]
    show ?thesis
      using plot_pos_3D_artists [where pos = pos and rp = False and ad = ad and L = L
          and ax = ax and cb = cb and ob = ob]
      by auto
  qed
qed

theorem C8_missing_column_witness:
  "[[1, 2 :: real]] \<noteq> [] \<and> has_columns 2 [[1, 2 :: real]]
   \<and> plot_pos_3D no_pair_lines (add_subplot Projection3D) [[1, 2]] 10 False False False
       = Inl IndexError
   \<and> (\<exists>ax'. plot_pos_2D no_pair_lines (add_subplot Rectilinear) [[1, 2]] 10 False False = Inr ax'
          \<and> points_2D (artists ax')
              = [(1, 2), (11, 2), (1, 12), (11, 12), (- 9, 2), (1, - 8), (- 9, - 8),
                 (- 9, 12), (11, - 8)])"
proof -
  have h: "[[1, 2 :: real]] \<noteq> []" "has_columns 2 [[1, 2 :: real]]"
    by (simp_all add: has_columns_def)
  from C8_missing_column [OF h, where ad = no_pair_lines and ax = "add_subplot Projection3D"
      and L = 10 and cb = False and ob = False]
  have three: "plot_pos_3D no_pair_lines (add_subplot Projection3D) [[1, 2]] 10 False False False
       = Inl IndexError"
    by simp
  from C8_missing_column [OF h, where ad = no_pair_lines and ax = "add_subplot Rectilinear"
      and L = 10 and cb = False and ob = False]
  obtain ax' where
    "plot_pos_2D no_pair_lines (add_subplot Rectilinear) [[1, 2]] 10 False False = Inr ax'"
    "points_2D (artists ax')
       = points_2D (artists (add_subplot Rectilinear))
         @ concat (map (\<lambda>row. map (\<lambda>off. (row ! 0 + fst off, row ! 1 + snd off))
                                ((0, 0) # neighbour_offsets_2D 10)) [[1, 2]])"
    by auto
  then have "\<exists>ax'. plot_pos_2D no_pair_lines (add_subplot Rectilinear) [[1, 2]] 10 False False
                 = Inr ax'
          \<and> points_2D (artists ax')
              = [(1, 2), (11, 2), (1, 12), (11, 12), (- 9, 2), (1, - 8), (- 9, - 8),
                 (- 9, 12), (11, - 8)]"
    by (simp add: neighbour_offsets_2D_def add_subplot_def)
  with three h show ?thesis by blast
qed

text \<open>The claim as stated fails: \<^verbatim>\<open>plot_pos_2D\<close> raises nothing on a particle given with
  three columns, and draws its nine images at the first two coordinates.\<close>

theorem C8_renders_other_shapes_counterexample:
  "(case plot_pos_2D no_pair_lines (add_subplot Rectilinear) [[1, 2, 3]] 10 True False of
      Inl e \<Rightarrow> False
    | Inr ax \<Rightarrow> points_2D (artists ax)
                 = [(1, 2), (11, 2), (1, 12), (11, 12), (- 9, 2), (1, - 8), (- 9, - 8),
                    (- 9, 12), (11, - 8)])"
proof -
  have h2: "min_columns 2 [[1, 2, 3 :: real]]" by (simp add: min_columns_def)
  from plot_pos_2D_artists [where pos = "[[1, 2, 3]]" and rp = False
      and ad = no_pair_lines and L = 10 and ax = "add_subplot Rectilinear" and cb = True] h2
  obtain ax1 where
    "plot_pos_2D no_pair_lines (add_subplot Rectilinear) [[1, 2, 3]] 10 True False = Inr ax1"
    "artists ax1 = artists (add_subplot Rectilinear) @ concat (map (images_2D 10 True) [[1, 2, 3]])
       @ [Plot2D [0, 0, 10, 10, 0] [0, 10, 10, 0, 0] ''g-'' None]"
    by auto
  then show ?thesis
    by (simp add: add_subplot_def images_2D_def neighbour_offsets_2D_def)
qed


text \<open>
  Claim C9. With \<^verbatim>\<open>relative_pos=True\<close>, on positions and displacements of matching shape,
  either renderer raises nothing and adds to the pair lines of the canvas one segment for
  every ordered pair \<open>(i, j)\<close> of distinct particles, \<open>n (n - 1)\<close> segments for \<open>n\<close>
  particles, in the order of the two loops. The segment of \<open>(i, j)\<close> goes from the position
  of particle \<open>i\<close> to that position plus the displacement \<^verbatim>\<open>rel_pos[j,i]\<close> the provider
  returned, with no wrapping into the box.
\<close>

theorem C9_pair_lines:
  assumes "min_columns 2 pos_2D" and "rel_shape (length pos_2D) 2 (fst (ad_2D pos_2D L))"
    and "min_columns 3 pos_3D" and "rel_shape (length pos_3D) 3 (fst (ad_3D pos_3D L))"
  shows "(\<exists>ax'. plot_pos_2D ad_2D ax pos_2D L central_box True = Inr ax'
            \<and> pair_lines ax'
                = pair_lines ax
                  @ map (segment_2D pos_2D (fst (ad_2D pos_2D L))) (ordered_pairs (length pos_2D)))
       \<and> (\<exists>ax'. plot_pos_3D ad_3D ax pos_3D L central_box True outer_boxes = Inr ax'
            \<and> pair_lines ax'
                = pair_lines ax
                  @ map (segment_3D pos_3D (fst (ad_3D pos_3D L))) (ordered_pairs (length pos_3D)))
       \<and> length (ordered_pairs n) = n * (n - 1)
       \<and> set (ordered_pairs n) = {(i, j). i < n \<and> j < n \<and> i \<noteq> j}
       \<and> segment_2D pos_2D rel (i, j)
           = Plot2D [pos_2D ! i ! 0, pos_2D ! i ! 0 + rel ! j ! i ! 0]
                    [pos_2D ! i ! 1, pos_2D ! i ! 1 + rel ! j ! i ! 1] ''b--'' None
       \<and> segment_3D pos_3D rel (i, j)
           = Plot3D [pos_3D ! i ! 0, pos_3D ! i ! 0 + rel ! j ! i ! 0]
                    [pos_3D ! i ! 1, pos_3D ! i ! 1 + rel ! j ! i ! 1]
                    [pos_3D ! i ! 2, pos_3D ! i ! 2 + rel ! j ! i ! 2] ''b--'' None"
proof (intro conjI)
  from plot_pos_2D_artists [where pos = pos_2D and rp = True and ad = ad_2D and L = L and ax = ax
      and cb = central_box] assms(1,2)
  obtain ax' where r: "plot_pos_2D ad_2D ax pos_2D L central_box True = Inr ax'"
    and a: "artists ax' = artists ax @ concat (map (images_2D L central_box) pos_2D)
             @ (if central_box then [Plot2D [0, 0, L, L, 0] [0, L, L, 0, 0] ''g-'' None] else [])
             @ map (segment_2D pos_2D (fst (ad_2D pos_2D L))) (ordered_pairs (length pos_2D))"
    by auto
  from r pair_lines_2D_result [OF a]
  show "\<exists>ax'. plot_pos_2D ad_2D ax pos_2D L central_box True = Inr ax'
            \<and> pair_lines ax'
                = pair_lines ax
                  @ map (segment_2D pos_2D (fst (ad_2D pos_2D L))) (ordered_pairs (length pos_2D))"
    by blast
next
  have m: "min_columns (if central_box \<and> \<not> outer_boxes \<and> \<not> True then 2 else 3) pos_3D"
    using assms(3) by simp
  from plot_pos_3D_artists [where pos = pos_3D and rp = True and ad = ad_3D and L = L and ax = ax
      and cb = central_box and ob = outer_boxes] m assms(4)
  obtain ax' where r: "plot_pos_3D ad_3D ax pos_3D L central_box True outer_boxes = Inr ax'"
    and a: "artists ax' = artists ax @ concat (map (images_3D L central_box outer_boxes) pos_3D)
             @ (if central_box then cube_outline L else [])
             @ map (segment_3D pos_3D (fst (ad_3D pos_3D L))) (ordered_pairs (length pos_3D))"
    by auto
  from r pair_lines_3D_result [OF a]
  show "\<exists>ax'. plot_pos_3D ad_3D ax pos_3D L central_box True outer_boxes = Inr ax'
            \<and> pair_lines ax'
                = pair_lines ax
                  @ map (segment_3D pos_3D (fst (ad_3D pos_3D L))) (ordered_pairs (length pos_3D))"
    by blast
qed (simp_all add: ordered_pairs_length ordered_pairs_set segment_2D_def segment_3D_def)

theorem C9_pair_lines_witness:
  "min_columns 2 corner_pair_2D
   \<and> rel_shape (length corner_pair_2D) 2 (fst (corner_rel_2D corner_pair_2D 10))
   \<and> min_columns 3 corner_pair_3D
   \<and> rel_shape (length corner_pair_3D) 3 (fst (corner_rel_3D corner_pair_3D 10))
   \<and> (\<exists>ax'. plot_pos_2D corner_rel_2D (add_subplot Rectilinear) corner_pair_2D 10 True True
              = Inr ax'
          \<and> pair_lines ax' = [Plot2D [1, - 1] [1, - 1] ''b--'' None,
                               Plot2D [9, 11] [9, 11] ''b--'' None])
   \<and> (\<exists>ax'. plot_pos_3D corner_rel_3D (add_subplot Projection3D) corner_pair_3D 10 True True
              False = Inr ax'
          \<and> pair_lines ax' = [Plot3D [1, - 1] [1, - 1] [1, - 1] ''b--'' None,
                               Plot3D [9, 11] [9, 11] [9, 11] ''b--'' None])"
proof -
  have h: "min_columns 2 corner_pair_2D"
    "rel_shape (length corner_pair_2D) 2 (fst (corner_rel_2D corner_pair_2D 10))"
    "min_columns 3 corner_pair_3D"
    "rel_shape (length corner_pair_3D) 3 (fst (corner_rel_3D corner_pair_3D 10))"
    by (simp_all add: min_columns_def rel_shape_def corner_pair_2D_def corner_rel_2D_def
        corner_pair_3D_def corner_rel_3D_def)
  have e2: "map (segment_2D corner_pair_2D (fst (corner_rel_2D corner_pair_2D 10)))
              (ordered_pairs (length corner_pair_2D))
            = [Plot2D [1, - 1] [1, - 1] ''b--'' None, Plot2D [9, 11] [9, 11] ''b--'' None]"
    by (simp add: corner_pair_2D_def corner_rel_2D_def ordered_pairs_two segment_2D_def)
  have e3: "map (segment_3D corner_pair_3D (fst (corner_rel_3D corner_pair_3D 10)))
              (ordered_pairs (length corner_pair_3D))
            = [Plot3D [1, - 1] [1, - 1] [1, - 1] ''b--'' None,
               Plot3D [9, 11] [9, 11] [9, 11] ''b--'' None]"
    by (simp add: corner_pair_3D_def corner_rel_3D_def ordered_pairs_two segment_3D_def)
  have p: "pair_lines (add_subplot p) = []" for p
    by (simp add: pair_lines_def add_subplot_def)
  from C9_pair_lines [where pos_2D = corner_pair_2D and ad_2D = corner_rel_2D and L = 10
      and pos_3D = corner_pair_3D and ad_3D = corner_rel_3D and ax = "add_subplot Rectilinear"
      and central_box = True and outer_boxes = False, OF h]
  have "\<exists>ax'. plot_pos_2D corner_rel_2D (add_subplot Rectilinear) corner_pair_2D 10 True True
              = Inr ax'
          \<and> pair_lines ax' = [Plot2D [1, - 1] [1, - 1] ''b--'' None,
                               Plot2D [9, 11] [9, 11] ''b--'' None]"
    by (simp only: e2 p append_Nil)
  moreover from C9_pair_lines [where pos_2D = corner_pair_2D and ad_2D = corner_rel_2D and L = 10
      and pos_3D = corner_pair_3D and ad_3D = corner_rel_3D and ax = "add_subplot Projection3D"
      and central_box = True and outer_boxes = False, OF h]
  have "\<exists>ax'. plot_pos_3D corner_rel_3D (add_subplot Projection3D) corner_pair_3D 10 True True
              False = Inr ax'
          \<and> pair_lines ax' = [Plot3D [1, - 1] [1, - 1] [1, - 1] ''b--'' None,
                               Plot3D [9, 11] [9, 11] [9, 11] ''b--'' None]"
    by (simp only: e3 p append_Nil)
  ultimately show ?thesis using h by blast
qed



end
